theory Spec2Isabelle
  imports Complex_Main "HOL-Library.Word"
begin

unbundle bit_operations_syntax

section \<open>AtomDB: a shallow embedding of \<open>atomdb/api.py\<close>\<close>

text \<open>
  The first part embeds the module: the element table and its two conversion functions,
  the path of a database entry, the species record and its derived attributes, the spline
  methods built on \<open>cubic_interp\<close>, and the MessagePack codec used by \<open>_dump\<close> and
  \<open>load\<close>. The second part proves the properties claimed of it.

  Conventions. A Python exception is a value of \<open>error\<close>, and a function that may raise
  returns \<open>error + 'a\<close> with \<open>Inl\<close> the exception. Python's \<open>int\<close> is \<open>int\<close>; \<open>str\<close> is
  \<open>string\<close> (all strings of the module are ASCII); \<open>bytes\<close> is a list of 8-bit words.
\<close>

subsection \<open>Exceptions\<close>

text \<open>
  The exceptions of Python that the module can raise, and \<open>OutsideModel\<close>, which is not
  one of them: it is the result of the embedding where a run of the program leaves what
  the embedding describes, and says nothing of what the program does there.
\<close>

datatype error =
    ValueError
  | IndexError
  | KeyError
  | TypeError
  | NotImplementedError
  | OverflowError
  | FileNotFoundError
  | AttributeError
  | OutsideModel

subsection \<open>The element table\<close>

text \<open>
  \<open>ELEMENTS\<close> is the module's tuple: the placeholder \<open>"\0"\<close> at index 0, then the 118
  symbols, so that the index of a symbol is its atomic number.
\<close>

definition ELEMENTS :: "string list" where
  "ELEMENTS =
   [[CHR 0x00], ''H'', ''He'', ''Li'', ''Be'', ''B'', ''C'', ''N'', ''O'', ''F'', ''Ne'', ''Na'',
    ''Mg'', ''Al'', ''Si'', ''P'', ''S'', ''Cl'', ''Ar'', ''K'', ''Ca'', ''Sc'', ''Ti'', ''V'',
    ''Cr'', ''Mn'', ''Fe'', ''Co'', ''Ni'', ''Cu'', ''Zn'', ''Ga'', ''Ge'', ''As'', ''Se'', ''Br'',
    ''Kr'', ''Rb'', ''Sr'', ''Y'', ''Zr'', ''Nb'', ''Mo'', ''Tc'', ''Ru'', ''Rh'', ''Pd'', ''Ag'',
    ''Cd'', ''In'', ''Sn'', ''Sb'', ''Te'', ''I'', ''Xe'', ''Cs'', ''Ba'', ''La'', ''Ce'', ''Pr'',
    ''Nd'', ''Pm'', ''Sm'', ''Eu'', ''Gd'', ''Tb'', ''Dy'', ''Ho'', ''Er'', ''Tm'', ''Yb'', ''Lu'',
    ''Hf'', ''Ta'', ''W'', ''Re'', ''Os'', ''Ir'', ''Pt'', ''Au'', ''Hg'', ''Tl'', ''Pb'', ''Bi'',
    ''Po'', ''At'', ''Rn'', ''Fr'', ''Ra'', ''Ac'', ''Th'', ''Pa'', ''U'', ''Np'', ''Pu'', ''Am'',
    ''Cm'', ''Bk'', ''Cf'', ''Es'', ''Fm'', ''Md'', ''No'', ''Lr'', ''Rf'', ''Db'', ''Sg'', ''Bh'',
    ''Hs'', ''Mt'', ''Ds'', ''Rg'', ''Cn'', ''Nh'', ''Fl'', ''Mc'', ''Lv'', ''Ts'', ''Og'']"

text \<open>
  An element argument is a symbol or a number: the two branches of
  \<open>isinstance(elem, str)\<close>.
\<close>

datatype elem = Sym string | Num int

text \<open>\<open>tuple.index(x)\<close>: the first position of \<open>x\<close>, \<open>ValueError\<close> when it is absent.\<close>

fun tuple_index :: "'a list \<Rightarrow> 'a \<Rightarrow> error + int" where
  "tuple_index [] x = Inl ValueError"
| "tuple_index (y # ys) x =
     (if y = x then Inr 0
      else case tuple_index ys x of Inl e \<Rightarrow> Inl e | Inr i \<Rightarrow> Inr (i + 1))"

text \<open>
  \<open>tuple[i]\<close>: a negative index counts from the end; \<open>IndexError\<close> outside
  \<open>-len .. len - 1\<close>.
\<close>

definition tuple_getitem :: "'a list \<Rightarrow> int \<Rightarrow> error + 'a" where
  "tuple_getitem xs i =
     (if 0 \<le> i
      then (if i < int (length xs) then Inr (xs ! nat i) else Inl IndexError)
      else (if - int (length xs) \<le> i then Inr (xs ! nat (int (length xs) + i))
            else Inl IndexError))"

text \<open>
  \<open>element_number\<close>: \<open>ELEMENTS.index(elem) if isinstance(elem, str) else elem\<close>.
\<close>

definition element_number :: "elem \<Rightarrow> error + int" where
  "element_number e = (case e of Sym s \<Rightarrow> tuple_index ELEMENTS s | Num n \<Rightarrow> Inr n)"

text \<open>
  \<open>element_symbol\<close>: \<open>elem if isinstance(elem, str) else ELEMENTS[elem]\<close>.
\<close>

definition element_symbol :: "elem \<Rightarrow> error + string" where
  "element_symbol e = (case e of Sym s \<Rightarrow> Inr s | Num n \<Rightarrow> tuple_getitem ELEMENTS n)"

subsection \<open>Strings and paths\<close>

text \<open>
  \<open>str(n)\<close> for an integer, as an f-string formats it: decimal digits, a leading
  \<open>-\<close> when negative.
\<close>

function str_nat :: "nat \<Rightarrow> string" where
  "str_nat n =
     (if n < 10 then [''0123456789'' ! n]
      else str_nat (n div 10) @ [''0123456789'' ! (n mod 10)])"
  by pat_completeness auto
termination
  by (relation "measure id") auto

declare str_nat.simps [simp del]

definition str_int :: "int \<Rightarrow> string" where
  "str_int i = (if i < 0 then CHR ''-'' # str_nat (nat (- i)) else str_nat (nat i))"

text \<open>\<open>str.lower()\<close> on ASCII text: the 26 capital letters are mapped, all else is kept.\<close>

definition lower_char :: "char \<Rightarrow> char" where
  "lower_char c =
     (case map_of (zip ''ABCDEFGHIJKLMNOPQRSTUVWXYZ'' ''abcdefghijklmnopqrstuvwxyz'') c of
        Some l \<Rightarrow> l
      | None \<Rightarrow> c)"

definition lower :: "string \<Rightarrow> string" where
  "lower s = map lower_char s"

definition startswith :: "string \<Rightarrow> string \<Rightarrow> bool" where
  "startswith s p = (take (length p) s = p)"

definition endswith :: "string \<Rightarrow> string \<Rightarrow> bool" where
  "endswith s p = (length p \<le> length s \<and> drop (length s - length p) s = p)"

text \<open>
  \<open>os.path.join(a, b)\<close> (POSIX): an absolute \<open>b\<close> replaces \<open>a\<close>; otherwise \<open>b\<close> is
  appended, after a separator unless \<open>a\<close> is empty or already ends with one.
\<close>

definition join :: "string \<Rightarrow> string \<Rightarrow> string" where
  "join a b =
     (if startswith b ''/'' then b
      else if a = [] \<or> endswith a ''/'' then a @ b
      else a @ ''/'' @ b)"

text \<open>
  \<open>Species._msgfile(elem, charge, mult, nexc, dataset, datapath)\<close>:
  \<^verbatim>\<open>join(datapath, f"{dataset.lower()}/db/{elem}_{charge}_{mult}_{nexc}.msg")\<close>.
  The f-string formats \<open>elem\<close> as it is given: a string as itself, a number in decimal.
\<close>

definition format_elem :: "elem \<Rightarrow> string" where
  "format_elem e = (case e of Sym s \<Rightarrow> s | Num n \<Rightarrow> str_int n)"

definition msgfile :: "elem \<Rightarrow> int \<Rightarrow> int \<Rightarrow> int \<Rightarrow> string \<Rightarrow> string \<Rightarrow> string" where
  "msgfile elem charge mult nexc dataset datapath =
     join datapath
       (lower dataset @ ''/db/'' @ format_elem elem @ ''_'' @ str_int charge @ ''_''
          @ str_int mult @ ''_'' @ str_int nexc @ ''.msg'')"

subsection \<open>Double-precision numbers\<close>

text \<open>
  A double is its 64-bit pattern (IEEE 754 binary64): a sign bit, 11 bits of biased
  exponent, 52 bits of fraction. An exponent field of 2047 marks an infinity (fraction 0)
  or a NaN; every other pattern is finite and \<open>valof\<close> is the real number it denotes,
  subnormal when the exponent field is 0.
\<close>

type_synonym byte = "8 word"
type_synonym float64 = "64 word"

definition sign_bit :: "float64 \<Rightarrow> bool" where
  "sign_bit w = bit w 63"

definition exponent :: "float64 \<Rightarrow> nat" where
  "exponent w = unat (take_bit 11 (drop_bit 52 w))"

definition fraction :: "float64 \<Rightarrow> nat" where
  "fraction w = unat (take_bit 52 w)"

definition is_finite :: "float64 \<Rightarrow> bool" where
  "is_finite w = (exponent w < 2047)"

definition is_nan :: "float64 \<Rightarrow> bool" where
  "is_nan w = (exponent w = 2047 \<and> fraction w \<noteq> 0)"

definition valof :: "float64 \<Rightarrow> real" where
  "valof w =
     (if sign_bit w then - 1 else 1)
       * (if exponent w = 0 then real (fraction w) / 2 ^ 1074
          else real (2 ^ 52 + fraction w) * 2 ^ (exponent w - 1) / 2 ^ 1074)"

definition plus_inf :: float64 where
  "plus_inf = 0x7FF0000000000000"

definition minus_inf :: float64 where
  "minus_inf = 0xFFF0000000000000"

definition nan :: float64 where
  "nan = 0x7FF8000000000000"

text \<open>
  The comparisons \<open>v > 0\<close> and \<open>v >= 0\<close> on a double: false of NaN, decided by the sign
  for an infinity.
\<close>

definition float_pos :: "float64 \<Rightarrow> bool" where
  "float_pos w = (\<not> is_nan w \<and> (if is_finite w then 0 < valof w else \<not> sign_bit w))"

definition float_ge0 :: "float64 \<Rightarrow> bool" where
  "float_ge0 w = (\<not> is_nan w \<and> (if is_finite w then 0 \<le> valof w else \<not> sign_bit w))"

text \<open>
  Rounding to nearest: a finite double with no other finite double closer to the real
  number. Where two are equally near the standard takes the one with an even fraction;
  here either may be taken. Overflow to an infinity is decided by the caller.
\<close>

definition round64 :: "real \<Rightarrow> float64" where
  "round64 r = arg_min_on (\<lambda>w. \<bar>valof w - r\<bar>) {w. is_finite w}"

text \<open>
  \<open>numpy.exp\<close> and \<open>numpy.log\<close> on a double are library functions, not code of the
  module. They are modelled as the standard specifies an operation, the exact result
  rounded to nearest, with the special cases of the C library: \<open>exp\<close> of a NaN is the
  NaN, of \<open>-inf\<close> is \<open>0.0\<close>, of \<open>+inf\<close> is \<open>+inf\<close>, and overflows to \<open>+inf\<close> from
  \<open>2^1024 - 2^970\<close> on (half a unit in the last place above the largest double); \<open>log\<close>
  of a zero is \<open>-inf\<close>, of a negative number is a NaN. The C library may miss the
  nearest double by a unit in the last place; nothing proved below depends on that bit.
\<close>

definition np_exp :: "float64 \<Rightarrow> float64" where
  "np_exp x =
     (if is_nan x then x
      else if is_finite x then
        (if 2 ^ 1024 - 2 ^ 970 \<le> exp (valof x) then plus_inf else round64 (exp (valof x)))
      else if sign_bit x then 0 else plus_inf)"

definition np_log :: "float64 \<Rightarrow> float64" where
  "np_log x =
     (if is_nan x then x
      else if is_finite x then
        (if valof x = 0 then minus_inf
         else if sign_bit x then nan
         else round64 (ln (valof x)))
      else if sign_bit x then nan else plus_inf)"

subsection \<open>The species record\<close>

text \<open>
  \<open>SpeciesData\<close> is the dataclass: one field per declared field, in the order of the
  declaration, a field with \<open>default=None\<close> as an option. A number is a double. The
  parameter \<open>'a\<close> is the representation of an array: a \<open>numpy.ndarray\<close> with its dtype,
  shape and buffer where the record is serialised (\<open>ndarray\<close>, below), the list of its
  doubles where splines are evaluated. The radius dictionaries map the name of a
  reference to a length or to \<open>None\<close>, as \<open>get_element_data\<close> builds them.
\<close>

record 'a SpeciesData =
  dataset :: string
  elem :: string
  natom :: int
  basis :: string
  nelec :: int
  nspin :: int
  nexc :: int
  cov_radii :: "(string \<times> float64 option) list"
  vdw_radii :: "(string \<times> float64 option) list"
  mass :: float64
  energy :: "float64 option"
  mo_energies :: "'a option"
  mo_occs :: "'a option"
  ip :: "float64 option"
  mu :: "float64 option"
  eta :: "float64 option"
  rs :: "'a option"
  dens_up :: "'a option"
  dens_dn :: "'a option"
  dens_tot :: "'a option"
  dens_mag :: "'a option"
  d_dens_up :: "'a option"
  d_dens_dn :: "'a option"
  d_dens_tot :: "'a option"
  d_dens_mag :: "'a option"
  lapl_up :: "'a option"
  lapl_dn :: "'a option"
  lapl_tot :: "'a option"
  lapl_mag :: "'a option"
  ked_up :: "'a option"
  ked_dn :: "'a option"
  ked_tot :: "'a option"
  ked_mag :: "'a option"

text \<open>
  \<open>Species\<close> is the subclass: the two attributes set in \<open>__init__\<close> are not dataclass
  fields, so they extend the record.
\<close>

record 'a Species = "'a SpeciesData" +
  charge :: int
  mult :: int

text \<open>
  \<open>Species.__init__\<close>: the dataclass initialiser, then
  \<open>self.charge = self.natom - self.nelec\<close> and \<open>self.mult = self.nspin + 1\<close>.
\<close>

definition Species_init :: "'a SpeciesData \<Rightarrow> 'a Species" where
  "Species_init d =
     SpeciesData.extend d (Species.fields (natom d - nelec d) (nspin d + 1))"

text \<open>The array fields of a record, in the order of their declaration.\<close>

definition arrays :: "('a, 'z) SpeciesData_scheme \<Rightarrow> 'a option list" where
  "arrays self =
     [mo_energies self, mo_occs self, rs self,
      dens_up self, dens_dn self, dens_tot self, dens_mag self,
      d_dens_up self, d_dens_dn self, d_dens_tot self, d_dens_mag self,
      lapl_up self, lapl_dn self, lapl_tot self, lapl_mag self,
      ked_up self, ked_dn self, ked_tot self, ked_mag self]"

definition all_arrays :: "('a \<Rightarrow> bool) \<Rightarrow> ('a, 'z) SpeciesData_scheme \<Rightarrow> bool" where
  "all_arrays P self = list_all (case_option True P) (arrays self)"

text \<open>The record of the same dataclass fields, each array that is present replaced by its image.\<close>

definition map_arrays :: "('a \<Rightarrow> 'b) \<Rightarrow> ('a, 'z) SpeciesData_scheme \<Rightarrow> 'b SpeciesData" where
  "map_arrays f self =
     \<lparr>dataset = dataset self,
       elem = elem self,
       natom = natom self,
       basis = basis self,
       nelec = nelec self,
       nspin = nspin self,
       nexc = nexc self,
       cov_radii = cov_radii self,
       vdw_radii = vdw_radii self,
       mass = mass self,
       energy = energy self,
       mo_energies = map_option f (mo_energies self),
       mo_occs = map_option f (mo_occs self),
       ip = ip self,
       mu = mu self,
       eta = eta self,
       rs = map_option f (rs self),
       dens_up = map_option f (dens_up self),
       dens_dn = map_option f (dens_dn self),
       dens_tot = map_option f (dens_tot self),
       dens_mag = map_option f (dens_mag self),
       d_dens_up = map_option f (d_dens_up self),
       d_dens_dn = map_option f (d_dens_dn self),
       d_dens_tot = map_option f (d_dens_tot self),
       d_dens_mag = map_option f (d_dens_mag self),
       lapl_up = map_option f (lapl_up self),
       lapl_dn = map_option f (lapl_dn self),
       lapl_tot = map_option f (lapl_tot self),
       lapl_mag = map_option f (lapl_mag self),
       ked_up = map_option f (ked_up self),
       ked_dn = map_option f (ked_dn self),
       ked_tot = map_option f (ked_tot self),
       ked_mag = map_option f (ked_mag self)\<rparr>"

subsection \<open>Splines\<close>

text \<open>
  \<open>scipy.interpolate.interp1d\<close> is a library class, not code of the module. It enters as
  a parameter \<open>lib\<close>: \<open>lib x y\<close> stands for
  \<open>interp1d(x, y, kind="cubic", copy=False, fill_value="extrapolate", assume_sorted=True)\<close>,
  which raises or returns the interpolant, a function from the evaluation point to a
  double. The grid is passed as the record holds it, \<open>None\<close> included. The splines are
  studied on the arrays a record has once it is loaded: one-dimensional arrays of
  doubles, here the lists of their elements.
\<close>

type_synonym interp1d = "float64 list option \<Rightarrow> float64 list \<Rightarrow> error + (float64 \<Rightarrow> float64)"

text \<open>
  A spline object is an instance of \<open>interp1d\<close> or of its subclass \<open>interp1d_log\<close>.
  \<open>interp1d_log.__init__\<close> hands \<open>log(y)\<close> to the library; \<open>interp1d_log.__call__\<close>
  applies \<open>exp\<close> to what the library's \<open>__call__\<close> returns. Both are numpy's, applied to
  each element.
\<close>

datatype spline = Interp1d "float64 \<Rightarrow> float64" | Interp1d_log "float64 \<Rightarrow> float64"

definition interp1d_init :: "interp1d \<Rightarrow> float64 list option \<Rightarrow> float64 list \<Rightarrow> error + spline" where
  "interp1d_init lib x y = (case lib x y of Inl e \<Rightarrow> Inl e | Inr f \<Rightarrow> Inr (Interp1d f))"

definition interp1d_log_init :: "interp1d \<Rightarrow> float64 list option \<Rightarrow> float64 list \<Rightarrow> error + spline" where
  "interp1d_log_init lib x y =
     (case lib x (map np_log y) of Inl e \<Rightarrow> Inl e | Inr f \<Rightarrow> Inr (Interp1d_log f))"

fun spline_call :: "spline \<Rightarrow> float64 list \<Rightarrow> float64 list" where
  "spline_call (Interp1d f) x = map f x"
| "spline_call (Interp1d_log f) x = map np_exp (map f x)"

text \<open>
  \<open>cubic_interp(x, y, log=False)\<close>:
  \<open>cls = interp1d_log if log else interp1d\<close>, then the instance of \<open>cls\<close>.
\<close>

definition cubic_interp ::
  "interp1d \<Rightarrow> float64 list option \<Rightarrow> float64 list \<Rightarrow> bool \<Rightarrow> error + spline" where
  "cubic_interp lib x y lg = (if lg then interp1d_log_init lib x y else interp1d_init lib x y)"

text \<open>\<open>d[k]\<close> on a dictionary: \<open>KeyError\<close> when the key is absent.\<close>

definition getitem :: "('k \<times> 'v) list \<Rightarrow> 'k \<Rightarrow> error + 'v" where
  "getitem d k = (case map_of d k of None \<Rightarrow> Inl KeyError | Some v \<Rightarrow> Inr v)"

text \<open>
  The four spline methods. Each builds its own dictionary \<open>spins\<close> from the four arrays of
  its family, then tests \<open>index is None\<close> first: only in that branch is \<open>spins[spin]\<close>
  looked up, and the spline built when the array is not \<open>None\<close>. The arguments \<open>spin\<close>,
  \<open>index\<close> and \<open>log\<close> are explicit; their defaults are \<open>'ab'\<close>, \<open>None\<close> and \<open>False\<close>
  (\<open>True\<close> for \<open>ked_spline\<close>).
\<close>

definition dens_spins :: "('a, 'z) SpeciesData_scheme \<Rightarrow> (string \<times> 'a option) list" where
  "dens_spins self =
     [(''a'', dens_up self), (''b'', dens_dn self), (''ab'', dens_tot self), (''m'', dens_mag self)]"

definition dens_spline ::
  "interp1d \<Rightarrow> (float64 list, 'z) SpeciesData_scheme \<Rightarrow> float64 list \<Rightarrow> string
     \<Rightarrow> int list option \<Rightarrow> bool \<Rightarrow> error + float64 list" where
  "dens_spline lib self points spin index lg =
     (case index of
        None \<Rightarrow>
          (case getitem (dens_spins self) spin of
             Inl e \<Rightarrow> Inl e
           | Inr None \<Rightarrow> Inl ValueError
           | Inr (Some arr) \<Rightarrow>
               (case cubic_interp lib (rs self) arr lg of
                  Inl e \<Rightarrow> Inl e
                | Inr spline \<Rightarrow> Inr (spline_call spline points)))
      | Some _ \<Rightarrow> Inl NotImplementedError)"

definition d_dens_spins :: "('a, 'z) SpeciesData_scheme \<Rightarrow> (string \<times> 'a option) list" where
  "d_dens_spins self =
     [(''a'', d_dens_up self), (''b'', d_dens_dn self), (''ab'', d_dens_tot self), (''m'', d_dens_mag self)]"

definition d_dens_spline ::
  "interp1d \<Rightarrow> (float64 list, 'z) SpeciesData_scheme \<Rightarrow> float64 list \<Rightarrow> string
     \<Rightarrow> int list option \<Rightarrow> bool \<Rightarrow> error + float64 list" where
  "d_dens_spline lib self points spin index lg =
     (case index of
        None \<Rightarrow>
          (case getitem (d_dens_spins self) spin of
             Inl e \<Rightarrow> Inl e
           | Inr None \<Rightarrow> Inl ValueError
           | Inr (Some arr) \<Rightarrow>
               (case cubic_interp lib (rs self) arr lg of
                  Inl e \<Rightarrow> Inl e
                | Inr spline \<Rightarrow> Inr (spline_call spline points)))
      | Some _ \<Rightarrow> Inl NotImplementedError)"

definition ked_spins :: "('a, 'z) SpeciesData_scheme \<Rightarrow> (string \<times> 'a option) list" where
  "ked_spins self =
     [(''a'', ked_up self), (''b'', ked_dn self), (''ab'', ked_tot self), (''m'', ked_mag self)]"

definition ked_spline ::
  "interp1d \<Rightarrow> (float64 list, 'z) SpeciesData_scheme \<Rightarrow> float64 list \<Rightarrow> string
     \<Rightarrow> int list option \<Rightarrow> bool \<Rightarrow> error + float64 list" where
  "ked_spline lib self points spin index lg =
     (case index of
        None \<Rightarrow>
          (case getitem (ked_spins self) spin of
             Inl e \<Rightarrow> Inl e
           | Inr None \<Rightarrow> Inl ValueError
           | Inr (Some arr) \<Rightarrow>
               (case cubic_interp lib (rs self) arr lg of
                  Inl e \<Rightarrow> Inl e
                | Inr spline \<Rightarrow> Inr (spline_call spline points)))
      | Some _ \<Rightarrow> Inl NotImplementedError)"

definition lapl_spins :: "('a, 'z) SpeciesData_scheme \<Rightarrow> (string \<times> 'a option) list" where
  "lapl_spins self =
     [(''a'', lapl_up self), (''b'', lapl_dn self), (''ab'', lapl_tot self), (''m'', lapl_mag self)]"

definition lapl_spline ::
  "interp1d \<Rightarrow> (float64 list, 'z) SpeciesData_scheme \<Rightarrow> float64 list \<Rightarrow> string
     \<Rightarrow> int list option \<Rightarrow> bool \<Rightarrow> error + float64 list" where
  "lapl_spline lib self points spin index lg =
     (case index of
        None \<Rightarrow>
          (case getitem (lapl_spins self) spin of
             Inl e \<Rightarrow> Inl e
           | Inr None \<Rightarrow> Inl ValueError
           | Inr (Some arr) \<Rightarrow>
               (case cubic_interp lib (rs self) arr lg of
                  Inl e \<Rightarrow> Inl e
                | Inr spline \<Rightarrow> Inr (spline_call spline points)))
      | Some _ \<Rightarrow> Inl NotImplementedError)"

text \<open>
  A library instance for concrete evaluation, on four samples. The spline that
  \<open>kind="cubic"\<close> fits to four samples is the one cubic through them, and it is extended by
  the same cubic beyond the grid: \<open>cubic4\<close> is that polynomial over the reals, in
  Lagrange's form. \<open>cubic4_lib\<close> returns its value at a point rounded to nearest (the
  library computes it in floating point, with rounding errors of its own). Any other
  input is \<open>OutsideModel\<close>: the instance stands for the library on four finite samples
  over four distinct finite nodes only.
\<close>

definition cubic4 :: "real list \<Rightarrow> real list \<Rightarrow> real \<Rightarrow> real" where
  "cubic4 xs ys p =
     ys ! 0 * ((p - xs ! 1) * (p - xs ! 2) * (p - xs ! 3))
        / ((xs ! 0 - xs ! 1) * (xs ! 0 - xs ! 2) * (xs ! 0 - xs ! 3))
     + ys ! 1 * ((p - xs ! 0) * (p - xs ! 2) * (p - xs ! 3))
        / ((xs ! 1 - xs ! 0) * (xs ! 1 - xs ! 2) * (xs ! 1 - xs ! 3))
     + ys ! 2 * ((p - xs ! 0) * (p - xs ! 1) * (p - xs ! 3))
        / ((xs ! 2 - xs ! 0) * (xs ! 2 - xs ! 1) * (xs ! 2 - xs ! 3))
     + ys ! 3 * ((p - xs ! 0) * (p - xs ! 1) * (p - xs ! 2))
        / ((xs ! 3 - xs ! 0) * (xs ! 3 - xs ! 1) * (xs ! 3 - xs ! 2))"

definition cubic4_lib :: interp1d where
  "cubic4_lib x y =
     (case x of
        None \<Rightarrow> Inl OutsideModel
      | Some xs \<Rightarrow>
          if length xs = 4 \<and> length y = 4 \<and> list_all is_finite xs \<and> list_all is_finite y
             \<and> distinct (map valof xs)
          then Inr (\<lambda>p. if is_finite p then round64 (cubic4 (map valof xs) (map valof y) (valof p))
                        else nan)
          else Inl OutsideModel)"

subsection \<open>Python objects and MessagePack documents\<close>

text \<open>
  The Python values that occur in a record, in the dictionary \<open>asdict\<close> builds from it and
  in what the unpacker returns. A dictionary is the list of its items in insertion order
  (its keys are distinct).

  A \<open>numpy.ndarray\<close> is its dtype, its shape and its buffer: the elements in row-major
  order, each in the \<open>itemsize\<close> bytes of the dtype. The dtypes are numpy's numeric
  types of fixed size. An array that numpy builds satisfies \<open>ndarray_ok\<close>: the buffer
  holds as many elements as the shape says.
\<close>

datatype dtype =
    Int8 | Int16 | Int32 | Int64
  | UInt8 | UInt16 | UInt32 | UInt64
  | Float16 | Float32 | Float64
  | Complex64 | Complex128

fun itemsize :: "dtype \<Rightarrow> nat" where
  "itemsize Int8 = 1"
| "itemsize Int16 = 2"
| "itemsize Int32 = 4"
| "itemsize Int64 = 8"
| "itemsize UInt8 = 1"
| "itemsize UInt16 = 2"
| "itemsize UInt32 = 4"
| "itemsize UInt64 = 8"
| "itemsize Float16 = 2"
| "itemsize Float32 = 4"
| "itemsize Float64 = 8"
| "itemsize Complex64 = 8"
| "itemsize Complex128 = 16"

datatype ndarray = Ndarray (dtype: dtype) (shape: "nat list") (buffer: "byte list")

definition ndarray_ok :: "ndarray \<Rightarrow> bool" where
  "ndarray_ok a = (length (buffer a) = itemsize (dtype a) * prod_list (shape a))"

text \<open>A one-dimensional array of doubles, the only kind \<open>load\<close> builds.\<close>

definition float64_1d :: "ndarray \<Rightarrow> bool" where
  "float64_1d a = (dtype a = Float64 \<and> length (shape a) = 1 \<and> ndarray_ok a)"

datatype pyobj =
    PNone
  | PBool bool
  | PInt int
  | PFloat float64
  | PStr string
  | PBytes "byte list"
  | PTuple "pyobj list"
  | PList "pyobj list"
  | PDict "(pyobj \<times> pyobj) list"
  | PNdarray ndarray

text \<open>
  \<open>msgpack.Packer\<close> and \<open>msgpack.Unpacker\<close> are library classes, not code of the module.
  They are modelled on the data model of the format: a file holds one MessagePack
  document, a value of \<open>msgpack\<close>, in which \<open>str\<close> and \<open>bin\<close> are different types. How a
  document is laid out in bytes is left to the library.
\<close>

datatype msgpack =
    MNil
  | MBool bool
  | MInt int
  | MFloat float64
  | MStr string
  | MBin "byte list"
  | MArray "msgpack list"
  | MMap "(msgpack \<times> msgpack) list"

subsection \<open>Arrays as raw bytes\<close>

text \<open>
  \<open>_array_to_bytes(array)\<close> returns the buffer of the array on either platform branch:
  \<open>array.tobytes()\<close>, or the view \<open>array.data\<close> of a contiguous array, which the packer
  writes out as the same bytes. Neither the dtype nor the shape is part of it.
\<close>

definition array_to_bytes :: "ndarray \<Rightarrow> byte list" where
  "array_to_bytes a = buffer a"

text \<open>
  \<open>numpy.frombuffer(b)\<close> with the default \<open>dtype=float\<close>: \<open>ValueError\<close> unless the
  length is a multiple of 8, else the one-dimensional array of the \<open>len(b) / 8\<close> doubles
  over these bytes.
\<close>

definition frombuffer :: "byte list \<Rightarrow> error + ndarray" where
  "frombuffer b =
     (if length b mod 8 \<noteq> 0 then Inl ValueError
      else Inr (Ndarray Float64 [length b div 8] b))"

text \<open>
  What an array is read back as when its buffer holds whole doubles, and the test that it
  does.
\<close>

definition as_float64 :: "ndarray \<Rightarrow> ndarray" where
  "as_float64 a = Ndarray Float64 [length (buffer a) div 8] (buffer a)"

definition whole_doubles :: "ndarray \<Rightarrow> bool" where
  "whole_doubles a = (length (buffer a) mod 8 = 0)"

text \<open>
  The elements of an array of doubles: eight bytes each, in the machine's byte order,
  here little-endian. \<open>float64_array xs\<close> is \<open>numpy.array(xs)\<close> for a list of doubles, and
  \<open>doubles a\<close> the elements of an array of doubles.
\<close>

fun float64_bytes_le :: "nat \<Rightarrow> float64 \<Rightarrow> byte list" where
  "float64_bytes_le 0 w = []"
| "float64_bytes_le (Suc n) w = ucast w # float64_bytes_le n (drop_bit 8 w)"




definition float64_array :: "float64 list \<Rightarrow> ndarray" where
  "float64_array xs = Ndarray Float64 [length xs] (concat (map (float64_bytes_le 8) xs))"


subsection \<open>Packing and unpacking\<close>

text \<open>The map keys \<open>strict_map_key=True\<close> admits: \<open>str\<close> and \<open>bytes\<close>.\<close>

definition is_key :: "pyobj \<Rightarrow> bool" where
  "is_key k = (case k of PStr _ \<Rightarrow> True | PBytes _ \<Rightarrow> True | _ \<Rightarrow> False)"

text \<open>
  Building a dictionary from items, as the unpacker does: a key seen again keeps its
  position and takes the new value.
\<close>

definition dict_setitem :: "('k \<times> 'v) list \<Rightarrow> 'k \<Rightarrow> 'v \<Rightarrow> ('k \<times> 'v) list" where
  "dict_setitem d k v =
     (if k \<in> fst ` set d then map (\<lambda>(k', v'). if k' = k then (k', v) else (k', v')) d
      else d @ [(k, v)])"

definition dict_of_items :: "('k \<times> 'v) list \<Rightarrow> ('k \<times> 'v) list" where
  "dict_of_items items = foldl (\<lambda>d (k, v). dict_setitem d k v) [] items"

text \<open>
  \<open>Packer(use_bin_type=True).pack\<close>: \<open>bytes\<close> become \<open>bin\<close> and \<open>str\<close> becomes \<open>str\<close>; an
  integer outside 64 bits raises \<open>OverflowError\<close>; a string, byte string, sequence or
  dictionary of \<open>2^32\<close> or more elements raises \<open>ValueError\<close>; an \<open>ndarray\<close>, like
  any type the packer does not know, raises \<open>TypeError\<close>.
\<close>

function pack_obj :: "pyobj \<Rightarrow> error + msgpack"
  and pack_list :: "pyobj list \<Rightarrow> error + msgpack list"
  and pack_items :: "(pyobj \<times> pyobj) list \<Rightarrow> error + (msgpack \<times> msgpack) list" where
  "pack_obj PNone = Inr MNil"
| "pack_obj (PBool b) = Inr (MBool b)"
| "pack_obj (PInt i) = (if - (2 ^ 63) \<le> i \<and> i < 2 ^ 64 then Inr (MInt i) else Inl OverflowError)"
| "pack_obj (PFloat x) = Inr (MFloat x)"
| "pack_obj (PStr s) = (if length s < 2 ^ 32 then Inr (MStr s) else Inl ValueError)"
| "pack_obj (PBytes b) = (if length b < 2 ^ 32 then Inr (MBin b) else Inl ValueError)"
| "pack_obj (PTuple xs) =
     (if length xs < 2 ^ 32
      then (case pack_list xs of Inl e \<Rightarrow> Inl e | Inr ms \<Rightarrow> Inr (MArray ms))
      else Inl ValueError)"
| "pack_obj (PList xs) =
     (if length xs < 2 ^ 32
      then (case pack_list xs of Inl e \<Rightarrow> Inl e | Inr ms \<Rightarrow> Inr (MArray ms))
      else Inl ValueError)"
| "pack_obj (PDict d) =
     (if length d < 2 ^ 32
      then (case pack_items d of Inl e \<Rightarrow> Inl e | Inr ms \<Rightarrow> Inr (MMap ms))
      else Inl ValueError)"
| "pack_obj (PNdarray a) = Inl TypeError"
| "pack_list [] = Inr []"
| "pack_list (x # xs) =
     (case pack_obj x of
        Inl e \<Rightarrow> Inl e
      | Inr m \<Rightarrow> (case pack_list xs of Inl e \<Rightarrow> Inl e | Inr ms \<Rightarrow> Inr (m # ms)))"
| "pack_items [] = Inr []"
| "pack_items ((k, v) # d) =
     (case pack_obj k of
        Inl e \<Rightarrow> Inl e
      | Inr mk \<Rightarrow>
          (case pack_obj v of
             Inl e \<Rightarrow> Inl e
           | Inr mv \<Rightarrow>
               (case pack_items d of Inl e \<Rightarrow> Inl e | Inr ms \<Rightarrow> Inr ((mk, mv) # ms))))"
  by pat_completeness auto
termination
  by (relation "measure (case_sum size (case_sum (size_list size) (size_list (size_prod size size))))")
    auto

text \<open>
  \<open>Unpacker(use_list=False, strict_map_key=True).unpack\<close>: an array becomes a tuple; a
  map key that is neither \<open>str\<close> nor \<open>bytes\<close> raises \<open>ValueError\<close>.
\<close>

function unpack_obj :: "msgpack \<Rightarrow> error + pyobj"
  and unpack_list :: "msgpack list \<Rightarrow> error + pyobj list"
  and unpack_items :: "(msgpack \<times> msgpack) list \<Rightarrow> error + (pyobj \<times> pyobj) list" where
  "unpack_obj MNil = Inr PNone"
| "unpack_obj (MBool b) = Inr (PBool b)"
| "unpack_obj (MInt i) = Inr (PInt i)"
| "unpack_obj (MFloat x) = Inr (PFloat x)"
| "unpack_obj (MStr s) = Inr (PStr s)"
| "unpack_obj (MBin b) = Inr (PBytes b)"
| "unpack_obj (MArray ms) =
     (case unpack_list ms of Inl e \<Rightarrow> Inl e | Inr xs \<Rightarrow> Inr (PTuple xs))"
| "unpack_obj (MMap ms) =
     (case unpack_items ms of Inl e \<Rightarrow> Inl e | Inr d \<Rightarrow> Inr (PDict (dict_of_items d)))"
| "unpack_list [] = Inr []"
| "unpack_list (m # ms) =
     (case unpack_obj m of
        Inl e \<Rightarrow> Inl e
      | Inr x \<Rightarrow> (case unpack_list ms of Inl e \<Rightarrow> Inl e | Inr xs \<Rightarrow> Inr (x # xs)))"
| "unpack_items [] = Inr []"
| "unpack_items ((mk, mv) # ms) =
     (case unpack_obj mk of
        Inl e \<Rightarrow> Inl e
      | Inr k \<Rightarrow>
          (case unpack_obj mv of
             Inl e \<Rightarrow> Inl e
           | Inr v \<Rightarrow>
               if is_key k
               then (case unpack_items ms of Inl e \<Rightarrow> Inl e | Inr d \<Rightarrow> Inr ((k, v) # d))
               else Inl ValueError))"
  by pat_completeness auto
termination
  by (relation "measure (case_sum size (case_sum (size_list size) (size_list (size_prod size size))))")
    auto

text \<open>\<open>pack_msg\<close> and \<open>unpack_msg\<close>, the module's two wrappers.\<close>

definition pack_msg :: "pyobj \<Rightarrow> error + msgpack" where
  "pack_msg msg = pack_obj msg"

definition unpack_msg :: "msgpack \<Rightarrow> error + pyobj" where
  "unpack_msg doc = unpack_obj doc"

subsection \<open>Serialising a record\<close>

text \<open>
  The fields as Python objects: an optional field holds \<open>None\<close> or its value, a radius
  dictionary has the names as its keys.
\<close>

definition float_obj :: "float64 option \<Rightarrow> pyobj" where
  "float_obj x = (case x of None \<Rightarrow> PNone | Some v \<Rightarrow> PFloat v)"

definition array_obj :: "ndarray option \<Rightarrow> pyobj" where
  "array_obj x = (case x of None \<Rightarrow> PNone | Some a \<Rightarrow> PNdarray a)"

definition dict_obj :: "(string \<times> float64 option) list \<Rightarrow> pyobj" where
  "dict_obj d = PDict (map (\<lambda>(k, v). (PStr k, float_obj v)) d)"

text \<open>
  \<open>dataclasses.asdict(self)\<close>: the dataclass fields, by name, in the order of their
  declaration. The attributes \<open>charge\<close> and \<open>mult\<close> are not dataclass fields and the
  function does not read them: it is defined on any extension of \<open>SpeciesData\<close>.
\<close>

definition asdict :: "(ndarray, 'z) SpeciesData_scheme \<Rightarrow> (pyobj \<times> pyobj) list" where
  "asdict self =
     [(PStr ''dataset'', PStr (dataset self)), (PStr ''elem'', PStr (elem self)),
      (PStr ''natom'', PInt (natom self)), (PStr ''basis'', PStr (basis self)),
      (PStr ''nelec'', PInt (nelec self)), (PStr ''nspin'', PInt (nspin self)),
      (PStr ''nexc'', PInt (nexc self)), (PStr ''cov_radii'', dict_obj (cov_radii self)),
      (PStr ''vdw_radii'', dict_obj (vdw_radii self)), (PStr ''mass'', PFloat (mass self)),
      (PStr ''energy'', float_obj (energy self)), (PStr ''mo_energies'', array_obj (mo_energies self)),
      (PStr ''mo_occs'', array_obj (mo_occs self)), (PStr ''ip'', float_obj (ip self)),
      (PStr ''mu'', float_obj (mu self)), (PStr ''eta'', float_obj (eta self)),
      (PStr ''rs'', array_obj (rs self)), (PStr ''dens_up'', array_obj (dens_up self)),
      (PStr ''dens_dn'', array_obj (dens_dn self)), (PStr ''dens_tot'', array_obj (dens_tot self)),
      (PStr ''dens_mag'', array_obj (dens_mag self)), (PStr ''d_dens_up'', array_obj (d_dens_up self)),
      (PStr ''d_dens_dn'', array_obj (d_dens_dn self)), (PStr ''d_dens_tot'', array_obj (d_dens_tot self)),
      (PStr ''d_dens_mag'', array_obj (d_dens_mag self)), (PStr ''lapl_up'', array_obj (lapl_up self)),
      (PStr ''lapl_dn'', array_obj (lapl_dn self)), (PStr ''lapl_tot'', array_obj (lapl_tot self)),
      (PStr ''lapl_mag'', array_obj (lapl_mag self)), (PStr ''ked_up'', array_obj (ked_up self)),
      (PStr ''ked_dn'', array_obj (ked_dn self)), (PStr ''ked_tot'', array_obj (ked_tot self)),
      (PStr ''ked_mag'', array_obj (ked_mag self))]"

text \<open>
  \<open>Species(**kw)\<close>. The dataclass initialiser raises \<open>TypeError\<close> for a keyword that is
  not a string or not the name of a field, and for a field without default that is not
  given; it checks no value and stores whatever it is given. The embedding is typed where
  Python is not: for a value that does not have the type its field declares (or \<open>None\<close>,
  for a field with \<open>default=None\<close>) the result is \<open>OutsideModel\<close>, where the program
  builds a record that the typed \<open>Species\<close> cannot hold. \<open>SpeciesData_fields\<close> is the
  declaration: name, type, and whether the field is required.
\<close>

datatype ftype = TStr | TInt | TFloat | TDict | TArray

definition SpeciesData_fields :: "(string \<times> ftype \<times> bool) list" where
  "SpeciesData_fields =
     [(''dataset'', TStr, True), (''elem'', TStr, True), (''natom'', TInt, True),
      (''basis'', TStr, True), (''nelec'', TInt, True), (''nspin'', TInt, True),
      (''nexc'', TInt, True), (''cov_radii'', TDict, True), (''vdw_radii'', TDict, True),
      (''mass'', TFloat, True), (''energy'', TFloat, False), (''mo_energies'', TArray, False),
      (''mo_occs'', TArray, False), (''ip'', TFloat, False), (''mu'', TFloat, False),
      (''eta'', TFloat, False), (''rs'', TArray, False), (''dens_up'', TArray, False),
      (''dens_dn'', TArray, False), (''dens_tot'', TArray, False), (''dens_mag'', TArray, False),
      (''d_dens_up'', TArray, False), (''d_dens_dn'', TArray, False), (''d_dens_tot'', TArray, False),
      (''d_dens_mag'', TArray, False), (''lapl_up'', TArray, False), (''lapl_dn'', TArray, False),
      (''lapl_tot'', TArray, False), (''lapl_mag'', TArray, False), (''ked_up'', TArray, False),
      (''ked_dn'', TArray, False), (''ked_tot'', TArray, False), (''ked_mag'', TArray, False)]"

definition radius_item :: "pyobj \<times> pyobj \<Rightarrow> bool" where
  "radius_item kv =
     (case kv of
        (PStr _, PFloat _) \<Rightarrow> True
      | (PStr _, PNone) \<Rightarrow> True
      | _ \<Rightarrow> False)"

definition has_type :: "ftype \<Rightarrow> pyobj \<Rightarrow> bool" where
  "has_type t v =
     (case (t, v) of
        (TStr, PStr _) \<Rightarrow> True
      | (TInt, PInt _) \<Rightarrow> True
      | (TFloat, PFloat _) \<Rightarrow> True
      | (TDict, PDict d) \<Rightarrow> list_all radius_item d \<and> distinct (map fst d)
      | (TArray, PNdarray _) \<Rightarrow> True
      | _ \<Rightarrow> False)"

text \<open>
  The keyword arguments are the items of a dictionary. Every keyword must name a field
  (\<open>keyword_ok\<close>) and every required field must be given (\<open>field_given\<close>), or the
  initialiser raises; a field that is not given takes its default \<open>None\<close>. The values
  the typed record can hold are those of \<open>value_ok\<close>.
\<close>

definition kwarg :: "(pyobj \<times> pyobj) list \<Rightarrow> string \<Rightarrow> pyobj option" where
  "kwarg kw name = map_of kw (PStr name)"

definition keyword_ok :: "pyobj \<times> pyobj \<Rightarrow> bool" where
  "keyword_ok kv =
     (case kv of
        (PStr name, v) \<Rightarrow> map_of SpeciesData_fields name \<noteq> None
      | _ \<Rightarrow> False)"

definition value_ok :: "pyobj \<times> pyobj \<Rightarrow> bool" where
  "value_ok kv =
     (case kv of
        (PStr name, v) \<Rightarrow>
          (case map_of SpeciesData_fields name of
             None \<Rightarrow> False
           | Some (t, required) \<Rightarrow> has_type t v \<or> (v = PNone \<and> \<not> required))
      | _ \<Rightarrow> False)"

definition field_given :: "(pyobj \<times> pyobj) list \<Rightarrow> string \<times> ftype \<times> bool \<Rightarrow> bool" where
  "field_given kw f =
     (case f of (name, t, required) \<Rightarrow> if required then kwarg kw name \<noteq> None else True)"

definition the_str :: "pyobj option \<Rightarrow> string" where
  "the_str v = (case v of Some (PStr s) \<Rightarrow> s | _ \<Rightarrow> [])"

definition the_int :: "pyobj option \<Rightarrow> int" where
  "the_int v = (case v of Some (PInt i) \<Rightarrow> i | _ \<Rightarrow> 0)"

definition the_float :: "pyobj option \<Rightarrow> float64" where
  "the_float v = (case v of Some (PFloat x) \<Rightarrow> x | _ \<Rightarrow> 0)"

definition opt_float :: "pyobj option \<Rightarrow> float64 option" where
  "opt_float v = (case v of Some (PFloat x) \<Rightarrow> Some x | _ \<Rightarrow> None)"

definition opt_array :: "pyobj option \<Rightarrow> ndarray option" where
  "opt_array v = (case v of Some (PNdarray a) \<Rightarrow> Some a | _ \<Rightarrow> None)"

definition the_dict :: "pyobj option \<Rightarrow> (string \<times> float64 option) list" where
  "the_dict v =
     (case v of
        Some (PDict d) \<Rightarrow> map (\<lambda>(k, x). (the_str (Some k), opt_float (Some x))) d
      | _ \<Rightarrow> [])"

definition Species_kwargs :: "(pyobj \<times> pyobj) list \<Rightarrow> error + ndarray Species" where
  "Species_kwargs kw =
     (if list_all keyword_ok kw \<and> list_all (field_given kw) SpeciesData_fields
      then if list_all value_ok kw
      then Inr (Species_init
        \<lparr>dataset = the_str (kwarg kw ''dataset''),
          elem = the_str (kwarg kw ''elem''),
          natom = the_int (kwarg kw ''natom''),
          basis = the_str (kwarg kw ''basis''),
          nelec = the_int (kwarg kw ''nelec''),
          nspin = the_int (kwarg kw ''nspin''),
          nexc = the_int (kwarg kw ''nexc''),
          cov_radii = the_dict (kwarg kw ''cov_radii''),
          vdw_radii = the_dict (kwarg kw ''vdw_radii''),
          mass = the_float (kwarg kw ''mass''),
          energy = opt_float (kwarg kw ''energy''),
          mo_energies = opt_array (kwarg kw ''mo_energies''),
          mo_occs = opt_array (kwarg kw ''mo_occs''),
          ip = opt_float (kwarg kw ''ip''),
          mu = opt_float (kwarg kw ''mu''),
          eta = opt_float (kwarg kw ''eta''),
          rs = opt_array (kwarg kw ''rs''),
          dens_up = opt_array (kwarg kw ''dens_up''),
          dens_dn = opt_array (kwarg kw ''dens_dn''),
          dens_tot = opt_array (kwarg kw ''dens_tot''),
          dens_mag = opt_array (kwarg kw ''dens_mag''),
          d_dens_up = opt_array (kwarg kw ''d_dens_up''),
          d_dens_dn = opt_array (kwarg kw ''d_dens_dn''),
          d_dens_tot = opt_array (kwarg kw ''d_dens_tot''),
          d_dens_mag = opt_array (kwarg kw ''d_dens_mag''),
          lapl_up = opt_array (kwarg kw ''lapl_up''),
          lapl_dn = opt_array (kwarg kw ''lapl_dn''),
          lapl_tot = opt_array (kwarg kw ''lapl_tot''),
          lapl_mag = opt_array (kwarg kw ''lapl_mag''),
          ked_up = opt_array (kwarg kw ''ked_up''),
          ked_dn = opt_array (kwarg kw ''ked_dn''),
          ked_tot = opt_array (kwarg kw ''ked_tot''),
          ked_mag = opt_array (kwarg kw ''ked_mag'')\<rparr>)
      else Inl OutsideModel
      else Inl TypeError)"

text \<open>
  The message \<open>_dump\<close> packs:
  \<^verbatim>\<open>{k: _array_to_bytes(v) if isinstance(v, ndarray) else v for k, v in asdict(self).items()}\<close>
\<close>

definition array_to_bytes_value :: "pyobj \<Rightarrow> pyobj" where
  "array_to_bytes_value v = (case v of PNdarray a \<Rightarrow> PBytes (array_to_bytes a) | _ \<Rightarrow> v)"

definition dump_msg :: "(ndarray, 'z) SpeciesData_scheme \<Rightarrow> pyobj" where
  "dump_msg self = PDict (map (\<lambda>(k, v). (k, array_to_bytes_value v)) (asdict self))"

text \<open>
  What \<open>load\<close> does with the unpacked message:
  \<^verbatim>\<open>Species(**{k: frombuffer(v) if isinstance(v, bytes) else v for k, v in msg.items()})\<close>;
  \<open>msg.items()\<close> raises \<open>AttributeError\<close> when the document is not a map.
\<close>

definition frombuffer_value :: "pyobj \<Rightarrow> error + pyobj" where
  "frombuffer_value v =
     (case v of
        PBytes b \<Rightarrow> (case frombuffer b of Inl e \<Rightarrow> Inl e | Inr a \<Rightarrow> Inr (PNdarray a))
      | _ \<Rightarrow> Inr v)"

fun frombuffer_items :: "(pyobj \<times> pyobj) list \<Rightarrow> error + (pyobj \<times> pyobj) list" where
  "frombuffer_items [] = Inr []"
| "frombuffer_items ((k, v) # d) =
     (case frombuffer_value v of
        Inl e \<Rightarrow> Inl e
      | Inr v' \<Rightarrow>
          (case frombuffer_items d of Inl e \<Rightarrow> Inl e | Inr d' \<Rightarrow> Inr ((k, v') # d')))"

definition load_msg :: "pyobj \<Rightarrow> error + ndarray Species" where
  "load_msg msg =
     (case msg of
        PDict d \<Rightarrow> (case frombuffer_items d of Inl e \<Rightarrow> Inl e | Inr kw \<Rightarrow> Species_kwargs kw)
      | _ \<Rightarrow> Inl AttributeError)"

text \<open>
  The two halves of the codec, as \<open>_dump\<close> and \<open>load\<close> contain them: \<open>encode\<close> is
  \<open>pack_msg(msg)\<close> for the message of the record, \<open>decode\<close> is \<open>unpack_msg(f)\<close> followed
  by the construction of the \<open>Species\<close>.
\<close>

definition encode :: "(ndarray, 'z) SpeciesData_scheme \<Rightarrow> error + msgpack" where
  "encode self = pack_msg (dump_msg self)"

definition decode :: "msgpack \<Rightarrow> error + ndarray Species" where
  "decode doc = (case unpack_msg doc of Inl e \<Rightarrow> Inl e | Inr msg \<Rightarrow> load_msg msg)"

text \<open>
  The database directory is a map from paths to the documents stored there. \<open>_dump\<close>
  writes the encoded record at the path of the record's own key; \<open>load\<close> opens the path
  of the key it is given, \<open>FileNotFoundError\<close> when there is no such file, and decodes
  what it reads. Directories are not modelled, and when \<open>_dump\<close> raises, the model
  returns the exception alone, not the file that \<open>open\<close> has already created.
\<close>

type_synonym files = "string \<rightharpoonup> msgpack"

definition dump :: "ndarray Species \<Rightarrow> string \<Rightarrow> files \<Rightarrow> error + files" where
  "dump self datapath fs =
     (let fn = msgfile (Sym (elem self)) (charge self) (mult self) (nexc self) (dataset self) datapath
      in case encode self of
           Inl e \<Rightarrow> Inl e
         | Inr doc \<Rightarrow> Inr (fs(fn \<mapsto> doc)))"

definition load ::
  "elem \<Rightarrow> int \<Rightarrow> int \<Rightarrow> int \<Rightarrow> string \<Rightarrow> string \<Rightarrow> files \<Rightarrow> error + ndarray Species" where
  "load elem' charge' mult' nexc' dataset' datapath fs =
     (case fs (msgfile elem' charge' mult' nexc' dataset' datapath) of
        None \<Rightarrow> Inl FileNotFoundError
      | Some doc \<Rightarrow> decode doc)"

text \<open>
  The records the packer accepts: integers of at most 64 bits, and strings, dictionaries
  and array buffers shorter than \<open>2^32\<close>.
\<close>

definition packable_int :: "int \<Rightarrow> bool" where
  "packable_int i = (- (2 ^ 63) \<le> i \<and> i < 2 ^ 64)"

definition packable_str :: "string \<Rightarrow> bool" where
  "packable_str s = (length s < 2 ^ 32)"

definition packable_radii :: "(string \<times> float64 option) list \<Rightarrow> bool" where
  "packable_radii d = (length d < 2 ^ 32 \<and> list_all (\<lambda>kv. packable_str (fst kv)) d)"

definition packable_array :: "ndarray option \<Rightarrow> bool" where
  "packable_array x = (case x of None \<Rightarrow> True | Some a \<Rightarrow> length (buffer a) < 2 ^ 32)"

definition packable :: "(ndarray, 'z) SpeciesData_scheme \<Rightarrow> bool" where
  "packable self =
     (packable_str (dataset self) \<and> packable_str (elem self) \<and> packable_str (basis self)
      \<and> list_all packable_int [natom self, nelec self, nspin self, nexc self]
      \<and> packable_radii (cov_radii self) \<and> packable_radii (vdw_radii self)
      \<and> list_all packable_array (arrays self))"

text \<open>
  The objects the unpacker returns as they were packed: no list (it would come back as a
  tuple), no array, and dictionaries with distinct keys of type \<open>str\<close> or \<open>bytes\<close>.
\<close>

function plain :: "pyobj \<Rightarrow> bool"
  and plain_list :: "pyobj list \<Rightarrow> bool"
  and plain_items :: "(pyobj \<times> pyobj) list \<Rightarrow> bool" where
  "plain PNone = True"
| "plain (PBool b) = True"
| "plain (PInt i) = True"
| "plain (PFloat x) = True"
| "plain (PStr s) = True"
| "plain (PBytes b) = True"
| "plain (PTuple xs) = plain_list xs"
| "plain (PList xs) = False"
| "plain (PDict d) = (plain_items d \<and> distinct (map fst d))"
| "plain (PNdarray a) = False"
| "plain_list [] = True"
| "plain_list (x # xs) = (plain x \<and> plain_list xs)"
| "plain_items [] = True"
| "plain_items ((k, v) # d) = (is_key k \<and> plain k \<and> plain v \<and> plain_items d)"
  by pat_completeness auto
termination
  by (relation "measure (case_sum size (case_sum (size_list size) (size_list (size_prod size size))))")
    auto

subsection \<open>A sample record\<close>

text \<open>
  The hydrogen atom of the dataset \<open>hci\<close> (charge 0, multiplicity 2, ground state), with a
  radial grid and the total density and kinetic-energy density on it; every other
  optional field is \<open>None\<close>. The numbers and the arrays are parameters, so that the record
  serves with both representations of an array.
\<close>

definition hydrogen :: "float64 \<Rightarrow> float64 \<Rightarrow> 'a \<Rightarrow> 'a \<Rightarrow> 'a SpeciesData" where
  "hydrogen m r grid tot =
     \<lparr>dataset = ''hci'',
       elem = ''H'',
       natom = 1,
       basis = ''cc-pvqz'',
       nelec = 1,
       nspin = 1,
       nexc = 0,
       cov_radii = [(''cordero'', Some r), (''bragg'', None)],
       vdw_radii = [],
       mass = m,
       energy = None,
       mo_energies = None,
       mo_occs = None,
       ip = None,
       mu = None,
       eta = None,
       rs = Some grid,
       dens_up = None,
       dens_dn = None,
       dens_tot = Some tot,
       dens_mag = None,
       d_dens_up = None,
       d_dens_dn = None,
       d_dens_tot = None,
       d_dens_mag = None,
       lapl_up = None,
       lapl_dn = None,
       lapl_tot = None,
       lapl_mag = None,
       ked_up = None,
       ked_dn = None,
       ked_tot = Some tot,
       ked_mag = None\<rparr>"

section \<open>Properties\<close>

subsection \<open>The element table\<close>

lemma length_ELEMENTS: "length ELEMENTS = 119"
  by (simp add: ELEMENTS_def)

lemma distinct_ELEMENTS: "distinct ELEMENTS"
  by (simp add: ELEMENTS_def)

lemma tuple_index_absent: "x \<notin> set xs \<Longrightarrow> tuple_index xs x = Inl ValueError"
  by (induction xs) auto

lemma tuple_index_nth:
  "distinct xs \<Longrightarrow> i < length xs \<Longrightarrow> tuple_index xs (xs ! i) = Inr (int i)"
proof (induction xs arbitrary: i)
  case Nil
  then show ?case by simp
next
  case (Cons y ys)
  show ?case
  proof (cases i)
    case 0
    then show ?thesis by simp
  next
    case (Suc k)
    with Cons.prems have "k < length ys" "ys ! k \<noteq> y" "distinct ys" by auto
    with Cons.IH[of k] Suc show ?thesis by simp
  qed
qed

lemma tuple_getitem_outside:
  "i < - int (length xs) \<or> int (length xs) \<le> i \<Longrightarrow> tuple_getitem xs i = Inl IndexError"
  by (auto simp: tuple_getitem_def)

lemma tuple_getitem_inside:
  "0 \<le> i \<Longrightarrow> i < int (length xs) \<Longrightarrow> tuple_getitem xs i = Inr (xs ! nat i)"
  by (simp add: tuple_getitem_def)

lemma tuple_getitem_negative:
  "- int (length xs) \<le> i \<Longrightarrow> i < 0 \<Longrightarrow>
   tuple_getitem xs i = Inr (xs ! nat (int (length xs) + i))"
  by (simp add: tuple_getitem_def)

lemma canonical_symbol_nth:
  assumes "s \<in> set (tl ELEMENTS)"
  obtains k where "1 \<le> k" "k \<le> 118" "ELEMENTS ! k = s"
proof -
  from assms obtain j where j: "j < length (tl ELEMENTS)" "tl ELEMENTS ! j = s"
    by (auto simp: in_set_conv_nth)
  have "ELEMENTS ! Suc j = s"
    using j by (simp add: nth_tl)
  moreover have "Suc j \<le> 118"
    using j(1) by (simp add: length_ELEMENTS)
  ultimately show thesis
    using that[of "Suc j"] by simp
qed

text \<open>
  Claim C4. For every atomic number \<open>z\<close> in \<open>1..118\<close>, \<open>element_symbol\<close> returns one
  of the 118 symbols and \<open>element_number\<close> of that symbol returns \<open>z\<close>; for every one of
  the 118 symbols \<open>s\<close> (the table without its placeholder), \<open>element_number\<close> returns a
  number in \<open>1..118\<close> and \<open>element_symbol\<close> of that number returns \<open>s\<close>.
\<close>

theorem element_roundtrip:
  "(1 \<le> z \<and> z \<le> 118 \<longrightarrow>
      (\<exists>s. element_symbol (Num z) = Inr s \<and> s \<in> set (tl ELEMENTS)
           \<and> element_number (Sym s) = Inr z))
   \<and> (s \<in> set (tl ELEMENTS) \<longrightarrow>
      (\<exists>z. element_number (Sym s) = Inr z \<and> 1 \<le> z \<and> z \<le> 118
           \<and> element_symbol (Num z) = Inr s))"
proof (intro conjI impI)
  assume z: "1 \<le> z \<and> z \<le> 118"
  define k where "k = nat z"
  have k: "k < length ELEMENTS" "int k = z" "0 < k"
    using z by (auto simp: k_def length_ELEMENTS)
  have sym: "element_symbol (Num z) = Inr (ELEMENTS ! k)"
    using z by (simp add: element_symbol_def tuple_getitem_inside length_ELEMENTS k_def)
  have "ELEMENTS ! k \<in> set (tl ELEMENTS)"
    using k by (cases k) (auto simp: nth_tl[symmetric] length_ELEMENTS intro!: nth_mem)
  moreover have "element_number (Sym (ELEMENTS ! k)) = Inr z"
    using tuple_index_nth[OF distinct_ELEMENTS k(1)] k(2) by (simp add: element_number_def)
  ultimately show "\<exists>s. element_symbol (Num z) = Inr s \<and> s \<in> set (tl ELEMENTS)
      \<and> element_number (Sym s) = Inr z"
    using sym by blast
next
  assume "s \<in> set (tl ELEMENTS)"
  then obtain k where k: "1 \<le> k" "k \<le> 118" "ELEMENTS ! k = s"
    by (rule canonical_symbol_nth)
  have "element_number (Sym s) = Inr (int k)"
    using tuple_index_nth[OF distinct_ELEMENTS, of k] k
    by (simp add: element_number_def length_ELEMENTS)
  moreover have "element_symbol (Num (int k)) = Inr s"
    using k by (simp add: element_symbol_def tuple_getitem_inside length_ELEMENTS)
  ultimately show "\<exists>z. element_number (Sym s) = Inr z \<and> 1 \<le> z \<and> z \<le> 118
      \<and> element_symbol (Num z) = Inr s"
    using k by auto
qed

theorem element_roundtrip_witness:
  "element_symbol (Num 26) = Inr ''Fe'' \<and> element_number (Sym ''Fe'') = Inr 26
   \<and> ''Fe'' \<in> set (tl ELEMENTS)"
proof -
  have sym: "element_symbol (Num 26) = Inr ''Fe''"
    by (simp add: element_symbol_def tuple_getitem_def ELEMENTS_def)
  have mem: "''Fe'' \<in> set (tl ELEMENTS)"
    by (simp add: ELEMENTS_def)
  from element_roundtrip[of 26 "''Fe''"] sym mem show ?thesis
    by auto
qed

text \<open>
  Claim C3, as stated, fails: a negative number down to \<open>-119\<close> indexes the table from
  its end (\<open>element_symbol(-1)\<close> is \<open>"Og"\<close>), the placeholder string is found at index 0
  (so 0 is returned), and the number 0 is accepted and yields the placeholder.
\<close>

theorem element_lookup_counterexample:
  "element_symbol (Num (- 1)) = Inr ''Og''
   \<and> element_number (Sym [CHR 0x00]) = Inr 0
   \<and> element_symbol (Num 0) = Inr [CHR 0x00]"
  by (simp add: element_symbol_def element_number_def tuple_getitem_def ELEMENTS_def)

text \<open>
  Claim C3, amended. \<open>element_symbol\<close> fails with \<open>IndexError\<close> for every number below
  \<open>-119\<close> or above \<open>118\<close>, and a number in \<open>-119..-1\<close> is read from the end of the
  table; \<open>element_number\<close> fails with \<open>ValueError\<close> for every string that is not an entry
  of the table (the 118 symbols and the placeholder); the number 0 is reserved in that
  no symbol has it as its number and \<open>element_symbol(0)\<close> is the placeholder, which is
  none of the 118 symbols.
\<close>

theorem element_lookup_errors:
  "(z < - 119 \<or> 118 < z \<longrightarrow> element_symbol (Num z) = Inl IndexError)
   \<and> (- 119 \<le> z \<and> z < 0 \<longrightarrow> element_symbol (Num z) = Inr (ELEMENTS ! nat (119 + z)))
   \<and> (s \<notin> set ELEMENTS \<longrightarrow> element_number (Sym s) = Inl ValueError)
   \<and> (s \<in> set (tl ELEMENTS) \<longrightarrow> element_number (Sym s) \<noteq> Inr 0)
   \<and> element_symbol (Num 0) = Inr [CHR 0x00]
   \<and> [CHR 0x00] \<notin> set (tl ELEMENTS)"
proof (intro conjI impI)
  assume "z < - 119 \<or> 118 < z"
  then show "element_symbol (Num z) = Inl IndexError"
    by (auto simp: element_symbol_def length_ELEMENTS intro!: tuple_getitem_outside)
next
  assume "- 119 \<le> z \<and> z < 0"
  then show "element_symbol (Num z) = Inr (ELEMENTS ! nat (119 + z))"
    by (simp add: element_symbol_def tuple_getitem_negative length_ELEMENTS)
next
  assume "s \<notin> set ELEMENTS"
  then show "element_number (Sym s) = Inl ValueError"
    by (simp add: element_number_def tuple_index_absent)
next
  assume "s \<in> set (tl ELEMENTS)"
  then obtain k where k: "1 \<le> k" "k \<le> 118" "ELEMENTS ! k = s"
    by (rule canonical_symbol_nth)
  have "element_number (Sym s) = Inr (int k)"
    using tuple_index_nth[OF distinct_ELEMENTS, of k] k
    by (simp add: element_number_def length_ELEMENTS)
  then show "element_number (Sym s) \<noteq> Inr 0"
    using k by simp
next
  show "element_symbol (Num 0) = Inr [CHR 0x00]"
    by (simp add: element_symbol_def tuple_getitem_def ELEMENTS_def)
next
  show "[CHR 0x00] \<notin> set (tl ELEMENTS)"
    by (simp add: ELEMENTS_def)
qed

theorem element_lookup_errors_witness:
  "element_symbol (Num 119) = Inl IndexError
   \<and> element_symbol (Num (- 120)) = Inl IndexError
   \<and> element_symbol (Num (- 118)) = Inr ''H''
   \<and> element_number (Sym ''Xx'') = Inl ValueError
   \<and> element_number (Sym ''Fe'') \<noteq> Inr 0"
proof -
  have a: "''Xx'' \<notin> set ELEMENTS" and b: "''Fe'' \<in> set (tl ELEMENTS)"
    and c: "ELEMENTS ! nat (119 + (- 118)) = ''H''"
    by (simp_all add: ELEMENTS_def)
  from element_lookup_errors[of 119 "''Xx''"] element_lookup_errors[of "- 120" "''Fe''"]
    element_lookup_errors[of "- 118" "''Fe''"] a b c
  show ?thesis by simp
qed

subsection \<open>Double-precision numbers\<close>

lemma fields_zero: "sign_bit 0 = False" "exponent 0 = 0" "fraction 0 = 0"
  by (simp_all add: sign_bit_def exponent_def fraction_def)

lemma valof_zero: "valof 0 = 0" "is_finite 0"
  by (simp_all add: valof_def is_finite_def fields_zero)

lemma fields_min_subnormal: "sign_bit 1 = False" "exponent 1 = 0" "fraction 1 = 1"
  by (simp_all add: sign_bit_def exponent_def fraction_def)

lemma valof_min_subnormal: "valof 1 = 1 / 2 ^ 1074" "is_finite 1"
  by (simp_all add: valof_def is_finite_def fields_min_subnormal)

lemma fields_plus_inf:
  "sign_bit plus_inf = False" "exponent plus_inf = 2047" "fraction plus_inf = 0"
  by (simp_all add: plus_inf_def sign_bit_def exponent_def fraction_def)

lemma float_pos_plus_inf: "float_pos plus_inf"
  by (simp add: float_pos_def is_nan_def is_finite_def fields_plus_inf)

lemma finite_not_nan: "is_finite w \<Longrightarrow> \<not> is_nan w"
  by (simp add: is_finite_def is_nan_def)

lemma round64_nearest:
  "is_finite (round64 r)"
  "is_finite w \<Longrightarrow> \<bar>valof (round64 r) - r\<bar> \<le> \<bar>valof w - r\<bar>"
proof -
  have fin: "finite {w :: float64. is_finite w}" by simp
  have ne: "{w :: float64. is_finite w} \<noteq> {}" using valof_zero(2) by blast
  from arg_min_if_finite [OF fin ne, of "\<lambda>w. \<bar>valof w - r\<bar>"]
  have a: "round64 r \<in> {w. is_finite w}"
    and b: "\<not> (\<exists>x\<in>{w. is_finite w}. \<bar>valof x - r\<bar> < \<bar>valof (round64 r) - r\<bar>)"
    by (simp_all add: round64_def)
  from a show "is_finite (round64 r)" by simp
  assume "is_finite w"
  with b show "\<bar>valof (round64 r) - r\<bar> \<le> \<bar>valof w - r\<bar>" by force
qed

text \<open>Rounding is monotone across every finite double.\<close>

lemma round64_le:
  assumes "is_finite a" and "r \<le> valof a"
  shows "valof (round64 r) \<le> valof a"
  using round64_nearest(2) [OF assms(1), of r] assms(2) by linarith

lemma round64_ge:
  assumes "is_finite a" and "valof a \<le> r"
  shows "valof a \<le> valof (round64 r)"
  using round64_nearest(2) [OF assms(1), of r] assms(2) by linarith

text \<open>No double lies strictly between zero and the smallest subnormal, \<open>2^-1074\<close>.\<close>

lemma valof_magnitude:
  assumes "valof w \<noteq> 0"
  shows "1 / 2 ^ 1074 \<le> \<bar>valof w\<bar>"
proof (cases "exponent w = 0")
  case True
  with assms have "fraction w \<noteq> 0" by (auto simp: valof_def)
  hence "1 \<le> real (fraction w)" by simp
  hence "1 / 2 ^ 1074 \<le> real (fraction w) / 2 ^ 1074" by (simp add: divide_right_mono)
  with True show ?thesis by (simp add: valof_def abs_mult)
next
  case False
  have "(1 :: real) \<le> real (2 ^ 52 + fraction w)" by simp
  moreover have "(1 :: real) \<le> 2 ^ (exponent w - 1)" by simp
  ultimately have "(1 :: real) * 1 \<le> real (2 ^ 52 + fraction w) * 2 ^ (exponent w - 1)"
    by (rule mult_mono) simp_all
  hence "1 / 2 ^ 1074 \<le> real (2 ^ 52 + fraction w) * 2 ^ (exponent w - 1) / 2 ^ 1074"
    by (simp add: divide_right_mono)
  with False show ?thesis by (simp add: valof_def abs_mult)
qed

text \<open>Underflow: a real number below half the smallest subnormal rounds to zero.\<close>

lemma round64_underflow:
  assumes "0 \<le> r" and "r < 1 / 2 ^ 1075"
  shows "valof (round64 r) = 0"
proof (rule ccontr)
  assume nz: "valof (round64 r) \<noteq> 0"
  from valof_magnitude [OF nz] have m: "1 / 2 ^ 1074 \<le> \<bar>valof (round64 r)\<bar>" .
  from round64_nearest(2) [OF valof_zero(2), of r] assms(1)
  have n: "\<bar>valof (round64 r) - r\<bar> \<le> r" by (simp add: valof_zero)
  have h: "(1 :: real) / 2 ^ 1074 = 2 * (1 / 2 ^ 1075)" by simp
  from m n assms h show False by linarith
qed

lemma exp_lower: "(2 :: real) ^ n \<le> exp (real n)"
proof -
  have "(2 :: real) \<le> exp 1" using exp_ge_add_one_self [of 1] by simp
  hence "(2 :: real) ^ n \<le> exp 1 ^ n" by (rule power_mono) simp
  thus ?thesis using exp_of_nat_mult [of n "1 :: real"] by simp
qed

lemma exp_upper: "exp (real n) \<le> 3 ^ n"
proof -
  have "exp 1 ^ n \<le> (3 :: real) ^ n" using exp_le by (rule power_mono) simp
  thus ?thesis using exp_of_nat_mult [of n "1 :: real"] by simp
qed

text \<open>
  \<open>numpy.exp\<close> underflows to zero at \<open>-1076\<close> and below (the threshold is near
  \<open>-745.13\<close>; the bound \<open>2 \<le> e\<close> gives this one).
\<close>

lemma np_exp_underflow:
  assumes "is_finite t" and "valof t \<le> - 1076"
  shows "is_finite (np_exp t) \<and> valof (np_exp t) = 0"
proof -
  have "exp (valof t) \<le> exp (- real 1076)" using assms(2) by simp
  also have "\<dots> = 1 / exp (real 1076)" by (simp only: exp_minus inverse_eq_divide)
  also have "\<dots> \<le> 1 / 2 ^ 1076"
    using exp_lower [of 1076] by (intro divide_left_mono) simp_all
  finally have le: "exp (valof t) \<le> 1 / 2 ^ 1076" .
  have "(1 :: real) / 2 ^ 1076 < 1 / 2 ^ 1075" by simp
  with le have small: "exp (valof t) < 1 / 2 ^ 1075" by linarith
  have "(1 :: real) / 2 ^ 1075 < 2 ^ 1024 - 2 ^ 970" by simp
  with small have no: "\<not> 2 ^ 1024 - 2 ^ 970 \<le> exp (valof t)" by linarith
  from assms(1) no have eq: "np_exp t = round64 (exp (valof t))"
    by (simp add: np_exp_def finite_not_nan)
  show ?thesis
    unfolding eq using round64_nearest(1) round64_underflow [OF _ small] by simp
qed

lemma zero_not_pos: "is_finite v \<Longrightarrow> valof v = 0 \<Longrightarrow> \<not> float_pos v"
  by (simp add: float_pos_def)

text \<open>
  \<open>numpy.exp\<close> is strictly positive from \<open>-670\<close> on (in fact from about \<open>-745.13\<close>; the
  bound \<open>e \<le> 3\<close> gives this one).
\<close>

lemma np_exp_positive:
  assumes "is_finite t" and "- 670 \<le> valof t"
  shows "float_pos (np_exp t)"
proof (cases "2 ^ 1024 - 2 ^ 970 \<le> exp (valof t)")
  case True
  with assms(1) have "np_exp t = plus_inf" by (simp add: np_exp_def finite_not_nan)
  thus ?thesis by (simp add: float_pos_plus_inf)
next
  case False
  with assms(1) have eq: "np_exp t = round64 (exp (valof t))"
    by (simp add: np_exp_def finite_not_nan)
  have "(1 :: real) / 2 ^ 1074 \<le> 1 / 3 ^ 670" by simp
  also have "\<dots> \<le> 1 / exp (real 670)"
    using exp_upper [of 670] by (intro divide_left_mono) simp_all
  also have "\<dots> = exp (- real 670)" by (simp only: exp_minus inverse_eq_divide)
  also have "\<dots> \<le> exp (valof t)" using assms(2) by simp
  finally have "valof 1 \<le> exp (valof t)" by (simp add: valof_min_subnormal)
  from round64_ge [OF valof_min_subnormal(2) this]
  have "0 < valof (round64 (exp (valof t)))" by (simp add: valof_min_subnormal)
  thus ?thesis
    unfolding eq using round64_nearest(1) [of "exp (valof t)"]
    by (simp add: float_pos_def finite_not_nan)
qed

text \<open>\<open>numpy.exp\<close> of anything but a NaN is not negative and not a NaN.\<close>

lemma np_exp_ge0:
  assumes "\<not> is_nan t"
  shows "float_ge0 (np_exp t)"
proof (cases "is_finite t")
  case fin: True
  show ?thesis
  proof (cases "2 ^ 1024 - 2 ^ 970 \<le> exp (valof t)")
    case True
    with fin assms have "np_exp t = plus_inf" by (simp add: np_exp_def)
    thus ?thesis by (simp add: float_ge0_def is_nan_def is_finite_def fields_plus_inf)
  next
    case False
    with fin assms have eq: "np_exp t = round64 (exp (valof t))" by (simp add: np_exp_def)
    have "valof 0 \<le> exp (valof t)" by (simp add: valof_zero)
    from round64_ge [OF valof_zero(2) this]
    have "0 \<le> valof (round64 (exp (valof t)))" by (simp add: valof_zero)
    thus ?thesis
      unfolding eq using round64_nearest(1) [of "exp (valof t)"]
      by (simp add: float_ge0_def finite_not_nan)
  qed
next
  case False
  with assms have "np_exp t = (if sign_bit t then 0 else plus_inf)" by (simp add: np_exp_def)
  thus ?thesis
    by (simp add: float_ge0_def is_nan_def is_finite_def fields_plus_inf fields_zero valof_zero)
qed

text \<open>The doubles of the samples below: 1, 2, 3, 64, 1/2, -1/2 and -2048.\<close>

lemma valof_samples:
  "valof 0x3FF0000000000000 = 1" "valof 0x4000000000000000 = 2"
  "valof 0x4008000000000000 = 3" "valof 0x4050000000000000 = 64"
  "valof 0x3FE0000000000000 = 1 / 2" "valof 0xBFE0000000000000 = - (1 / 2)"
  "valof 0xC0A0000000000000 = - 2048"
  by (simp_all add: valof_def sign_bit_def exponent_def fraction_def)

lemma finite_samples:
  "is_finite 0x3FF0000000000000" "is_finite 0x4000000000000000"
  "is_finite 0x4008000000000000" "is_finite 0x4050000000000000"
  "is_finite 0x3FE0000000000000" "is_finite 0xBFE0000000000000"
  "is_finite 0xC0A0000000000000"
  by (simp_all add: is_finite_def exponent_def)

lemma sign_samples:
  "\<not> sign_bit 0x3FF0000000000000" "\<not> sign_bit 0x3FE0000000000000"
  by (simp_all add: sign_bit_def)

lemma float_pos_samples: "float_pos 0x3FF0000000000000" "float_pos 0x3FE0000000000000"
  by (simp_all add: float_pos_def finite_samples finite_not_nan valof_samples)

lemma np_log_one: "is_finite (np_log 0x3FF0000000000000)" "valof (np_log 0x3FF0000000000000) = 0"
proof -
  have eq: "np_log 0x3FF0000000000000 = round64 0"
    by (simp add: np_log_def finite_samples finite_not_nan valof_samples sign_samples)
  show "is_finite (np_log 0x3FF0000000000000)"
    unfolding eq by (rule round64_nearest(1))
  have "valof (round64 0) \<le> valof 0" "valof 0 \<le> valof (round64 0)"
    by (rule round64_le round64_ge; simp add: valof_zero)+
  thus "valof (np_log 0x3FF0000000000000) = 0"
    unfolding eq by (simp add: valof_zero)
qed

lemma np_log_half:
  "is_finite (np_log 0x3FE0000000000000)" "valof (np_log 0x3FE0000000000000) \<le> - (1 / 2)"
proof -
  have eq: "np_log 0x3FE0000000000000 = round64 (ln (1 / 2))"
    by (simp add: np_log_def finite_samples finite_not_nan valof_samples sign_samples)
  show "is_finite (np_log 0x3FE0000000000000)"
    unfolding eq by (rule round64_nearest(1))
  have "ln (1 + (- (1 / 2) :: real)) \<le> - (1 / 2)"
    by (rule ln_add_one_self_le_self2) simp
  hence "ln (1 / 2 :: real) \<le> valof 0xBFE0000000000000"
    by (simp add: valof_samples)
  from round64_le [OF finite_samples(6) this]
  show "valof (np_log 0x3FE0000000000000) \<le> - (1 / 2)"
    unfolding eq by (simp add: valof_samples)
qed

subsection \<open>Splines\<close>

lemma spins_lookup_invalid:
  "spin \<notin> set [''a'', ''b'', ''ab'', ''m''] \<Longrightarrow>
   getitem [(''a'', a), (''b'', b), (''ab'', c), (''m'', d)] spin = Inl KeyError"
  by (simp add: getitem_def)

text \<open>
  Claim C6. Whenever the lookup \<open>spins[spin]\<close> of a family succeeds and yields \<open>None\<close>
  (a valid selector whose array is absent), the family's spline method called with
  \<open>index=None\<close> raises \<open>ValueError\<close>, the unavailable-channel error, whatever the points,
  the \<open>log\<close> flag and the library; in particular \<open>dens_spline\<close> with \<open>spin='b'\<close> on a
  record without \<open>dens_dn\<close>.
\<close>

theorem spline_unavailable_channel:
  "(getitem (dens_spins self) spin = Inr None
      \<longrightarrow> dens_spline lib self points spin None lg = Inl ValueError)
   \<and> (getitem (d_dens_spins self) spin = Inr None
      \<longrightarrow> d_dens_spline lib self points spin None lg = Inl ValueError)
   \<and> (getitem (ked_spins self) spin = Inr None
      \<longrightarrow> ked_spline lib self points spin None lg = Inl ValueError)
   \<and> (getitem (lapl_spins self) spin = Inr None
      \<longrightarrow> lapl_spline lib self points spin None lg = Inl ValueError)
   \<and> (dens_dn self = None \<longrightarrow> dens_spline lib self points ''b'' None lg = Inl ValueError)"
proof (intro conjI impI)
  assume "getitem (dens_spins self) spin = Inr None"
  then show "dens_spline lib self points spin None lg = Inl ValueError"
    by (simp add: dens_spline_def)
next
  assume "getitem (d_dens_spins self) spin = Inr None"
  then show "d_dens_spline lib self points spin None lg = Inl ValueError"
    by (simp add: d_dens_spline_def)
next
  assume "getitem (ked_spins self) spin = Inr None"
  then show "ked_spline lib self points spin None lg = Inl ValueError"
    by (simp add: ked_spline_def)
next
  assume "getitem (lapl_spins self) spin = Inr None"
  then show "lapl_spline lib self points spin None lg = Inl ValueError"
    by (simp add: lapl_spline_def)
next
  assume "dens_dn self = None"
  then have "getitem (dens_spins self) ''b'' = Inr None"
    by (simp add: getitem_def dens_spins_def)
  then show "dens_spline lib self points ''b'' None lg = Inl ValueError"
    by (simp add: dens_spline_def)
qed

theorem spline_unavailable_channel_witness:
  "dens_spline cubic4_lib
       (hydrogen 0x409CB572E48E8A72 0x3FE2BEFF4A2B24FB
          [0, 0x3FF0000000000000, 0x4000000000000000, 0x4008000000000000]
          [0x3FF0000000000000, 0x3FF0000000000000, 0x3FF0000000000000, 0x3FE0000000000000])
       [0x3FE0000000000000] ''b'' None False
     = Inl ValueError
   \<and> lapl_spline cubic4_lib
       (hydrogen 0x409CB572E48E8A72 0x3FE2BEFF4A2B24FB
          [0, 0x3FF0000000000000, 0x4000000000000000, 0x4008000000000000]
          [0x3FF0000000000000, 0x3FF0000000000000, 0x3FF0000000000000, 0x3FE0000000000000])
       [0x3FE0000000000000] ''ab'' None False
     = Inl ValueError"
proof -
  let ?h = "hydrogen 0x409CB572E48E8A72 0x3FE2BEFF4A2B24FB
      [0, 0x3FF0000000000000, 0x4000000000000000, 0x4008000000000000]
      [0x3FF0000000000000, 0x3FF0000000000000, 0x3FF0000000000000, 0x3FE0000000000000]
    :: float64 list SpeciesData"
  have a: "dens_dn ?h = None"
    by (simp add: hydrogen_def)
  have b: "getitem (lapl_spins ?h) ''ab'' = Inr None"
    by (simp add: hydrogen_def lapl_spins_def getitem_def)
  from spline_unavailable_channel[of ?h "''ab''" cubic4_lib "[0x3FE0000000000000]" False] a b
  show ?thesis by simp
qed

lemma dens_spline_result:
  "dens_spline lib self points spin index lg = Inr vs \<Longrightarrow>
   \<exists>arr spline. index = None \<and> getitem (dens_spins self) spin = Inr (Some arr)
     \<and> cubic_interp lib (rs self) arr lg = Inr spline \<and> vs = spline_call spline points"
  by (auto simp: dens_spline_def split: option.splits sum.splits)

lemma d_dens_spline_result:
  "d_dens_spline lib self points spin index lg = Inr vs \<Longrightarrow>
   \<exists>arr spline. index = None \<and> getitem (d_dens_spins self) spin = Inr (Some arr)
     \<and> cubic_interp lib (rs self) arr lg = Inr spline \<and> vs = spline_call spline points"
  by (auto simp: d_dens_spline_def split: option.splits sum.splits)

lemma ked_spline_result:
  "ked_spline lib self points spin index lg = Inr vs \<Longrightarrow>
   \<exists>arr spline. index = None \<and> getitem (ked_spins self) spin = Inr (Some arr)
     \<and> cubic_interp lib (rs self) arr lg = Inr spline \<and> vs = spline_call spline points"
  by (auto simp: ked_spline_def split: option.splits sum.splits)

lemma lapl_spline_result:
  "lapl_spline lib self points spin index lg = Inr vs \<Longrightarrow>
   \<exists>arr spline. index = None \<and> getitem (lapl_spins self) spin = Inr (Some arr)
     \<and> cubic_interp lib (rs self) arr lg = Inr spline \<and> vs = spline_call spline points"
  by (auto simp: lapl_spline_def split: option.splits sum.splits)

text \<open>
  Claim C7. With an \<open>index\<close> other than \<open>None\<close>, each of the four spline methods raises
  \<open>NotImplementedError\<close>, whatever the record, the spin selector, the points, the \<open>log\<close>
  flag and the library: no array is looked up and no spline is built. The error is not
  the unavailable-channel error.
\<close>

theorem spline_subset_not_supported:
  "dens_spline lib self points spin (Some ix) lg = Inl NotImplementedError
   \<and> d_dens_spline lib self points spin (Some ix) lg = Inl NotImplementedError
   \<and> ked_spline lib self points spin (Some ix) lg = Inl NotImplementedError
   \<and> lapl_spline lib self points spin (Some ix) lg = Inl NotImplementedError
   \<and> dens_spline lib self points spin (Some ix) lg \<noteq> Inl ValueError"
  by (simp add: dens_spline_def d_dens_spline_def ked_spline_def lapl_spline_def)

text \<open>
  Claim C10. With \<open>index=None\<close> and a spin selector that is none of \<open>'a'\<close>, \<open>'b'\<close>,
  \<open>'ab'\<close>, \<open>'m'\<close>, each of the four spline methods raises \<open>KeyError\<close>, which is not the
  unavailable-channel error \<open>ValueError\<close>; the result does not depend on the record or on
  the library, since the lookup \<open>spins[spin]\<close> comes before the test of the array and the
  construction of the spline.
\<close>

theorem spline_invalid_spin:
  assumes "spin \<notin> set [''a'', ''b'', ''ab'', ''m'']"
  shows "dens_spline lib self points spin None lg = Inl KeyError
   \<and> d_dens_spline lib self points spin None lg = Inl KeyError
   \<and> ked_spline lib self points spin None lg = Inl KeyError
   \<and> lapl_spline lib self points spin None lg = Inl KeyError
   \<and> dens_spline lib self points spin None lg \<noteq> Inl ValueError"
proof -
  have "getitem (dens_spins self) spin = Inl KeyError"
    "getitem (d_dens_spins self) spin = Inl KeyError"
    "getitem (ked_spins self) spin = Inl KeyError"
    "getitem (lapl_spins self) spin = Inl KeyError"
    unfolding dens_spins_def d_dens_spins_def ked_spins_def lapl_spins_def
    by (rule spins_lookup_invalid[OF assms])+
  then show ?thesis
    by (simp add: dens_spline_def d_dens_spline_def ked_spline_def lapl_spline_def)
qed

theorem spline_invalid_spin_witness:
  "dens_spline cubic4_lib
       (hydrogen 0x409CB572E48E8A72 0x3FE2BEFF4A2B24FB
          [0, 0x3FF0000000000000, 0x4000000000000000, 0x4008000000000000]
          [0x3FF0000000000000, 0x3FF0000000000000, 0x3FF0000000000000, 0x3FE0000000000000])
       [0x3FE0000000000000] ''ba'' None False
     = Inl KeyError
   \<and> ked_spline cubic4_lib
       (hydrogen 0x409CB572E48E8A72 0x3FE2BEFF4A2B24FB
          [0, 0x3FF0000000000000, 0x4000000000000000, 0x4008000000000000]
          [0x3FF0000000000000, 0x3FF0000000000000, 0x3FF0000000000000, 0x3FE0000000000000])
       [0x3FE0000000000000] ''alpha'' None True
     = Inl KeyError"
proof -
  have a: "''ba'' \<notin> set [''a'', ''b'', ''ab'', ''m'']"
    and b: "''alpha'' \<notin> set [''a'', ''b'', ''ab'', ''m'']"
    by simp_all
  from spline_invalid_spin[OF a] spline_invalid_spin[OF b] show ?thesis
    by blast
qed

lemma cubic_interp_log:
  "cubic_interp lib x ys True = Inr spline \<Longrightarrow>
   \<exists>f. lib x (map np_log ys) = Inr f \<and> spline = Interp1d_log f"
  by (auto simp: cubic_interp_def interp1d_log_init_def split: sum.splits)

lemma log_spline_call:
  assumes "cubic_interp lib x ys True = Inr spline"
  shows "\<exists>f. lib x (map np_log ys) = Inr f
    \<and> spline_call spline points = map (\<lambda>p. np_exp (f p)) points"
proof -
  from assms obtain f where "lib x (map np_log ys) = Inr f" "spline = Interp1d_log f"
    using cubic_interp_log by blast
  then show ?thesis
    by (auto simp: comp_def)
qed

text \<open>
  The sample: the grid 0, 1, 2, 3 and on it the strictly positive array 1, 1, 1, 1/2.
  The logarithms of the samples are 0, 0, 0 and a double \<open>l\<close> of at most \<open>-1/2\<close>. The
  cubic through them is \<open>l * p * (p - 1) * (p - 2) / 6\<close>: it is 0 at the node 1 and
  \<open>41664 * l\<close>, below \<open>-2048\<close>, at the point 64 beyond the grid.
\<close>

lemma sample_spline:
  "ked_spline cubic4_lib
       (hydrogen m r
          [0, 0x3FF0000000000000, 0x4000000000000000, 0x4008000000000000]
          [0x3FF0000000000000, 0x3FF0000000000000, 0x3FF0000000000000, 0x3FE0000000000000])
       points ''ab'' None True
     = Inr (map (\<lambda>p. np_exp (if is_finite p
          then round64 (valof (np_log 0x3FE0000000000000)
                  * (valof p * (valof p - 1) * (valof p - 2)) / 6)
          else nan)) points)"
  by (simp add: ked_spline_def ked_spins_def getitem_def hydrogen_def cubic_interp_def
      interp1d_log_init_def cubic4_lib_def cubic4_def valof_zero valof_samples finite_samples
      np_log_one np_log_half comp_def)

lemma sample_at_node:
  "is_finite (round64 (valof (np_log 0x3FE0000000000000)
      * (valof 0x3FF0000000000000 * (valof 0x3FF0000000000000 - 1)
          * (valof 0x3FF0000000000000 - 2)) / 6))"
  "valof (round64 (valof (np_log 0x3FE0000000000000)
      * (valof 0x3FF0000000000000 * (valof 0x3FF0000000000000 - 1)
          * (valof 0x3FF0000000000000 - 2)) / 6)) = 0"
proof -
  have "valof (round64 0) \<le> valof 0" "valof 0 \<le> valof (round64 0)"
    by (rule round64_le round64_ge; simp add: valof_zero)+
  then show "valof (round64 (valof (np_log 0x3FE0000000000000)
      * (valof 0x3FF0000000000000 * (valof 0x3FF0000000000000 - 1)
          * (valof 0x3FF0000000000000 - 2)) / 6)) = 0"
    by (simp add: valof_samples valof_zero)
qed (rule round64_nearest(1))

lemma sample_beyond_grid:
  "is_finite (round64 (valof (np_log 0x3FE0000000000000)
      * (valof 0x4050000000000000 * (valof 0x4050000000000000 - 1)
          * (valof 0x4050000000000000 - 2)) / 6))"
  "valof (round64 (valof (np_log 0x3FE0000000000000)
      * (valof 0x4050000000000000 * (valof 0x4050000000000000 - 1)
          * (valof 0x4050000000000000 - 2)) / 6)) \<le> - 2048"
proof -
  have "valof (np_log 0x3FE0000000000000) * (64 * (64 - 1) * (64 - 2)) / 6
      \<le> valof 0xC0A0000000000000"
    using np_log_half(2) by (simp add: valof_samples)
  from round64_le [OF finite_samples(7) this]
  show "valof (round64 (valof (np_log 0x3FE0000000000000)
      * (valof 0x4050000000000000 * (valof 0x4050000000000000 - 1)
          * (valof 0x4050000000000000 - 2)) / 6)) \<le> - 2048"
    by (simp add: valof_samples)
qed (rule round64_nearest(1))

text \<open>
  Claim C9, as stated, fails. On the sample, whose array is strictly positive, the
  log-domain spline of \<open>ked_spline\<close> evaluated at the point 64 beyond the grid returns
  \<open>numpy.exp\<close> of a double \<open>t\<close> of at most \<open>-2048\<close>: the exponential underflows, and
  the value returned is zero, not a strictly positive number.
\<close>

theorem log_spline_underflow:
  "list_all float_pos
       [0x3FF0000000000000, 0x3FF0000000000000, 0x3FF0000000000000, 0x3FE0000000000000]
   \<and> (\<exists>t. ked_spline cubic4_lib
          (hydrogen 0x409CB572E48E8A72 0x3FE2BEFF4A2B24FB
             [0, 0x3FF0000000000000, 0x4000000000000000, 0x4008000000000000]
             [0x3FF0000000000000, 0x3FF0000000000000, 0x3FF0000000000000, 0x3FE0000000000000])
          [0x4050000000000000] ''ab'' None True
        = Inr [np_exp t]
        \<and> is_finite t \<and> valof t \<le> - 2048
        \<and> is_finite (np_exp t) \<and> valof (np_exp t) = 0 \<and> \<not> float_pos (np_exp t))"
proof -
  let ?t = "round64 (valof (np_log 0x3FE0000000000000)
      * (valof 0x4050000000000000 * (valof 0x4050000000000000 - 1)
          * (valof 0x4050000000000000 - 2)) / 6)"
  have fin: "is_finite ?t" and low: "valof ?t \<le> - 2048"
    by (rule sample_beyond_grid)+
  from low have "valof ?t \<le> - 1076" by linarith
  from np_exp_underflow [OF fin this]
  have zero: "is_finite (np_exp ?t)" "valof (np_exp ?t) = 0" by simp_all
  from zero have "\<not> float_pos (np_exp ?t)" by (rule zero_not_pos)
  moreover have "ked_spline cubic4_lib
      (hydrogen 0x409CB572E48E8A72 0x3FE2BEFF4A2B24FB
         [0, 0x3FF0000000000000, 0x4000000000000000, 0x4008000000000000]
         [0x3FF0000000000000, 0x3FF0000000000000, 0x3FF0000000000000, 0x3FE0000000000000])
      [0x4050000000000000] ''ab'' None True = Inr [np_exp ?t]"
    by (simp add: sample_spline finite_samples)
  ultimately show ?thesis
    using fin low zero float_pos_samples by (intro conjI exI [of _ ?t]) simp_all
qed

text \<open>
  Claim C9, amended. A spline built by \<open>cubic_interp\<close> with the \<open>log\<close> flag set, and so
  each of the four spline methods called with the flag, returns at every point
  \<open>numpy.exp\<close> of the double \<open>t\<close> that the library interpolates there from the logarithms
  of the samples, inside the grid or beyond it. That value is never negative and never
  a NaN unless \<open>t\<close> is a NaN; it is strictly positive when \<open>t\<close> is finite and at least
  \<open>-670\<close>; it is zero, hence not strictly positive, when \<open>t\<close> is finite and at most
  \<open>-1076\<close>. (The exact threshold lies between the two, near \<open>-745.13\<close>.) This holds of
  every array, strictly positive or not.
\<close>

theorem log_spline_values:
  "(cubic_interp lib x ys True = Inr spline
      \<longrightarrow> (\<exists>f. lib x (map np_log ys) = Inr f
            \<and> spline_call spline points = map (\<lambda>p. np_exp (f p)) points))
   \<and> (dens_spline lib self points spin index True = Inr vs
      \<longrightarrow> (\<exists>arr f. getitem (dens_spins self) spin = Inr (Some arr)
            \<and> lib (rs self) (map np_log arr) = Inr f \<and> vs = map (\<lambda>p. np_exp (f p)) points))
   \<and> (d_dens_spline lib self points spin index True = Inr vs
      \<longrightarrow> (\<exists>arr f. getitem (d_dens_spins self) spin = Inr (Some arr)
            \<and> lib (rs self) (map np_log arr) = Inr f \<and> vs = map (\<lambda>p. np_exp (f p)) points))
   \<and> (ked_spline lib self points spin index True = Inr vs
      \<longrightarrow> (\<exists>arr f. getitem (ked_spins self) spin = Inr (Some arr)
            \<and> lib (rs self) (map np_log arr) = Inr f \<and> vs = map (\<lambda>p. np_exp (f p)) points))
   \<and> (lapl_spline lib self points spin index True = Inr vs
      \<longrightarrow> (\<exists>arr f. getitem (lapl_spins self) spin = Inr (Some arr)
            \<and> lib (rs self) (map np_log arr) = Inr f \<and> vs = map (\<lambda>p. np_exp (f p)) points))
   \<and> (\<not> is_nan t \<longrightarrow> float_ge0 (np_exp t))
   \<and> (is_finite t \<and> - 670 \<le> valof t \<longrightarrow> float_pos (np_exp t))
   \<and> (is_finite t \<and> valof t \<le> - 1076
      \<longrightarrow> is_finite (np_exp t) \<and> valof (np_exp t) = 0 \<and> \<not> float_pos (np_exp t))"
proof (intro conjI impI)
  assume "cubic_interp lib x ys True = Inr spline"
  then show "\<exists>f. lib x (map np_log ys) = Inr f
      \<and> spline_call spline points = map (\<lambda>p. np_exp (f p)) points"
    by (rule log_spline_call)
next
  assume "dens_spline lib self points spin index True = Inr vs"
  then show "\<exists>arr f. getitem (dens_spins self) spin = Inr (Some arr)
      \<and> lib (rs self) (map np_log arr) = Inr f \<and> vs = map (\<lambda>p. np_exp (f p)) points"
    using log_spline_call by (blast dest!: dens_spline_result)
next
  assume "d_dens_spline lib self points spin index True = Inr vs"
  then show "\<exists>arr f. getitem (d_dens_spins self) spin = Inr (Some arr)
      \<and> lib (rs self) (map np_log arr) = Inr f \<and> vs = map (\<lambda>p. np_exp (f p)) points"
    using log_spline_call by (blast dest!: d_dens_spline_result)
next
  assume "ked_spline lib self points spin index True = Inr vs"
  then show "\<exists>arr f. getitem (ked_spins self) spin = Inr (Some arr)
      \<and> lib (rs self) (map np_log arr) = Inr f \<and> vs = map (\<lambda>p. np_exp (f p)) points"
    using log_spline_call by (blast dest!: ked_spline_result)
next
  assume "lapl_spline lib self points spin index True = Inr vs"
  then show "\<exists>arr f. getitem (lapl_spins self) spin = Inr (Some arr)
      \<and> lib (rs self) (map np_log arr) = Inr f \<and> vs = map (\<lambda>p. np_exp (f p)) points"
    using log_spline_call by (blast dest!: lapl_spline_result)
next
  assume "\<not> is_nan t"
  then show "float_ge0 (np_exp t)" by (rule np_exp_ge0)
next
  assume "is_finite t \<and> - 670 \<le> valof t"
  then show "float_pos (np_exp t)" by (simp add: np_exp_positive)
next
  assume t: "is_finite t \<and> valof t \<le> - 1076"
  then have z: "is_finite (np_exp t) \<and> valof (np_exp t) = 0"
    by (simp add: np_exp_underflow)
  then show "is_finite (np_exp t)" "valof (np_exp t) = 0" "\<not> float_pos (np_exp t)"
    by (simp_all add: zero_not_pos)
qed

theorem log_spline_values_witness:
  "\<exists>t1 t2. ked_spline cubic4_lib
         (hydrogen 0x409CB572E48E8A72 0x3FE2BEFF4A2B24FB
            [0, 0x3FF0000000000000, 0x4000000000000000, 0x4008000000000000]
            [0x3FF0000000000000, 0x3FF0000000000000, 0x3FF0000000000000, 0x3FE0000000000000])
         [0x3FF0000000000000, 0x4050000000000000] ''ab'' None True
       = Inr [np_exp t1, np_exp t2]
     \<and> valof t1 = 0 \<and> float_pos (np_exp t1)
     \<and> valof t2 \<le> - 2048 \<and> float_ge0 (np_exp t2) \<and> valof (np_exp t2) = 0
     \<and> \<not> float_pos (np_exp t2)"
proof -
  let ?t1 = "round64 (valof (np_log 0x3FE0000000000000)
      * (valof 0x3FF0000000000000 * (valof 0x3FF0000000000000 - 1)
          * (valof 0x3FF0000000000000 - 2)) / 6)"
  let ?t2 = "round64 (valof (np_log 0x3FE0000000000000)
      * (valof 0x4050000000000000 * (valof 0x4050000000000000 - 1)
          * (valof 0x4050000000000000 - 2)) / 6)"
  have t1: "is_finite ?t1" "valof ?t1 = 0"
    by (rule sample_at_node)+
  have t2: "is_finite ?t2" "valof ?t2 \<le> - 2048"
    by (rule sample_beyond_grid)+
  have k: "ked_spline cubic4_lib
      (hydrogen 0x409CB572E48E8A72 0x3FE2BEFF4A2B24FB
         [0, 0x3FF0000000000000, 0x4000000000000000, 0x4008000000000000]
         [0x3FF0000000000000, 0x3FF0000000000000, 0x3FF0000000000000, 0x3FE0000000000000])
      [0x3FF0000000000000, 0x4050000000000000] ''ab'' None True = Inr [np_exp ?t1, np_exp ?t2]"
    by (simp add: sample_spline finite_samples)
  let ?grid = "[0, 0x3FF0000000000000, 0x4000000000000000, 0x4008000000000000] :: float64 list"
  let ?ys = "[0x3FF0000000000000, 0x3FF0000000000000, 0x3FF0000000000000, 0x3FE0000000000000]
    :: float64 list"
  let ?h = "hydrogen 0x409CB572E48E8A72 0x3FE2BEFF4A2B24FB ?grid ?ys :: float64 list SpeciesData"
  let ?points = "[0x3FF0000000000000, 0x4050000000000000] :: float64 list"
  note v1 = log_spline_values [where t = ?t1 and lib = cubic4_lib and self = ?h
      and points = ?points and spin = "''ab''" and index = None
      and vs = "[np_exp ?t1, np_exp ?t2]" and x = "Some ?grid" and ys = ?ys
      and spline = "Interp1d_log (\<lambda>p. p)"]
  note v2 = log_spline_values [where t = ?t2 and lib = cubic4_lib and self = ?h
      and points = ?points and spin = "''ab''" and index = None
      and vs = "[np_exp ?t1, np_exp ?t2]" and x = "Some ?grid" and ys = ?ys
      and spline = "Interp1d_log (\<lambda>p. p)"]
  from v1 t1 have p1: "float_pos (np_exp ?t1)"
    by simp
  from t2 have n2: "\<not> is_nan ?t2" "valof ?t2 \<le> - 1076"
    by (simp_all add: finite_not_nan)
  from v2 t2(1) n2
  have p2: "float_ge0 (np_exp ?t2)" "valof (np_exp ?t2) = 0" "\<not> float_pos (np_exp ?t2)"
    by blast+
  from k t1 t2 p1 p2 show ?thesis
    by blast
qed

subsection \<open>The codec\<close>



lemma length_float64_bytes_le: "length (float64_bytes_le n w) = n"
  by (induction n arbitrary: w) simp_all


lemma length_concat_bytes: "length (concat (map (float64_bytes_le 8) xs)) = 8 * length xs"
  by (induction xs) (simp_all add: length_float64_bytes_le)



lemma float64_1d_float64_array: "float64_1d (float64_array xs)"
  by (simp add: float64_1d_def float64_array_def ndarray_ok_def length_concat_bytes)

lemma float64_1d_whole: "float64_1d a \<Longrightarrow> whole_doubles a"
  by (simp add: float64_1d_def ndarray_ok_def whole_doubles_def)

lemma float64_1d_shape:
  assumes "float64_1d a"
  shows "shape a = [length (buffer a) div 8]"
proof -
  from assms obtain n where n: "shape a = [n]"
    by (cases "shape a") (auto simp: float64_1d_def)
  with assms have "length (buffer a) = 8 * n"
    by (simp add: float64_1d_def ndarray_ok_def)
  with n show ?thesis by simp
qed

lemma as_float64_id: "float64_1d a \<Longrightarrow> as_float64 a = a"
  using float64_1d_shape[of a] by (cases a) (simp add: as_float64_def float64_1d_def)

lemma frombuffer_whole: "whole_doubles a \<Longrightarrow> frombuffer (array_to_bytes a) = Inr (as_float64 a)"
  by (simp add: frombuffer_def array_to_bytes_def whole_doubles_def as_float64_def)


lemma dict_setitem_new: "k \<notin> fst ` set d \<Longrightarrow> dict_setitem d k v = d @ [(k, v)]"
  by (simp add: dict_setitem_def)

lemma foldl_dict_setitem:
  "distinct (map fst (acc @ items)) \<Longrightarrow>
   foldl (\<lambda>d (k, v). dict_setitem d k v) acc items = acc @ items"
proof (induction items arbitrary: acc)
  case Nil
  show ?case by simp
next
  case (Cons kv items)
  obtain k v where kv: "kv = (k, v)" by (cases kv)
  from Cons.prems have new: "k \<notin> fst ` set acc" and rest: "distinct (map fst ((acc @ [(k, v)]) @ items))"
    by (auto simp: kv)
  from Cons.IH[OF rest] show ?case
    by (simp add: kv dict_setitem_new[OF new])
qed

lemma dict_of_items_distinct: "distinct (map fst items) \<Longrightarrow> dict_of_items items = items"
  using foldl_dict_setitem[of "[]" items] by (simp add: dict_of_items_def)

lemma unpack_pack:
  "plain v \<Longrightarrow> pack_obj v = Inr m \<Longrightarrow> unpack_obj m = Inr v"
  "plain_list xs \<Longrightarrow> pack_list xs = Inr ms \<Longrightarrow> unpack_list ms = Inr xs"
  "plain_items d \<Longrightarrow> pack_items d = Inr mps \<Longrightarrow> unpack_items mps = Inr d"
proof (induction v and xs and d arbitrary: m and ms and mps
    rule: pack_obj_pack_list_pack_items.induct)
  case (9 d)
  then show ?case
    by (auto split: sum.splits if_splits simp: dict_of_items_distinct)
qed (auto split: sum.splits if_splits)

lemma plain_float_obj: "plain (float_obj x)"
  by (cases x) (simp_all add: float_obj_def)

lemma plain_items_radii: "plain_items (map (\<lambda>(k, v). (PStr k, float_obj v)) d)"
  by (induction d) (auto simp: is_key_def plain_float_obj)

lemma keys_radii: "map fst (map (\<lambda>(k, v). (PStr k, float_obj v)) d) = map PStr (map fst d)"
  by (induction d) auto

lemma distinct_keys_radii:
  "distinct (map fst (map (\<lambda>(k, v). (PStr k, float_obj v)) d)) = distinct (map fst d)"
proof -
  have "distinct (map PStr xs) = distinct xs" for xs
    by (simp add: distinct_map inj_on_def)
  then show ?thesis
    unfolding keys_radii .
qed

lemma plain_dict_obj: "plain (dict_obj d) = distinct (map fst d)"
  unfolding dict_obj_def plain.simps distinct_keys_radii
  by (simp add: plain_items_radii)

lemma plain_array_value: "plain (array_to_bytes_value (array_obj x))"
  by (cases x) (simp_all add: array_obj_def array_to_bytes_value_def)

lemma array_to_bytes_value_simps:
  "array_to_bytes_value (PStr s) = PStr s"
  "array_to_bytes_value (PInt i) = PInt i"
  "array_to_bytes_value (PFloat y) = PFloat y"
  "array_to_bytes_value (float_obj x) = float_obj x"
  "array_to_bytes_value (dict_obj d) = dict_obj d"
  by (simp_all add: array_to_bytes_value_def float_obj_def dict_obj_def split: option.splits)

lemma frombuffer_value_simps:
  "frombuffer_value (PStr s) = Inr (PStr s)"
  "frombuffer_value (PInt i) = Inr (PInt i)"
  "frombuffer_value (PFloat y) = Inr (PFloat y)"
  "frombuffer_value (float_obj x) = Inr (float_obj x)"
  "frombuffer_value (dict_obj d) = Inr (dict_obj d)"
  by (simp_all add: frombuffer_value_def float_obj_def dict_obj_def split: option.splits)

lemma frombuffer_array_value:
  "case_option True whole_doubles x \<Longrightarrow>
   frombuffer_value (array_to_bytes_value (array_obj x))
     = Inr (array_obj (map_option as_float64 x))"
  by (cases x)
    (simp_all add: frombuffer_value_def array_to_bytes_value_def array_obj_def frombuffer_whole)

lemma plain_dump_msg:
  assumes "distinct (map fst (cov_radii self))" "distinct (map fst (vdw_radii self))"
  shows "plain (dump_msg self)"
  using assms
  by (simp add: dump_msg_def asdict_def array_to_bytes_value_simps plain_float_obj
      plain_dict_obj plain_array_value is_key_def)

lemma frombuffer_items_dump_msg:
  assumes "all_arrays whole_doubles self"
  shows "frombuffer_items (map (\<lambda>(k, v). (k, array_to_bytes_value v)) (asdict self))
    = Inr (asdict (map_arrays as_float64 self))"
  using assms
  by (simp add: all_arrays_def arrays_def asdict_def map_arrays_def array_to_bytes_value_simps
      frombuffer_value_simps frombuffer_array_value)

lemma kwarg_asdict:
  "kwarg (asdict self) ''dataset'' = Some (PStr (dataset self))"
  "kwarg (asdict self) ''elem'' = Some (PStr (elem self))"
  "kwarg (asdict self) ''natom'' = Some (PInt (natom self))"
  "kwarg (asdict self) ''basis'' = Some (PStr (basis self))"
  "kwarg (asdict self) ''nelec'' = Some (PInt (nelec self))"
  "kwarg (asdict self) ''nspin'' = Some (PInt (nspin self))"
  "kwarg (asdict self) ''nexc'' = Some (PInt (nexc self))"
  "kwarg (asdict self) ''cov_radii'' = Some (dict_obj (cov_radii self))"
  "kwarg (asdict self) ''vdw_radii'' = Some (dict_obj (vdw_radii self))"
  "kwarg (asdict self) ''mass'' = Some (PFloat (mass self))"
  "kwarg (asdict self) ''energy'' = Some (float_obj (energy self))"
  "kwarg (asdict self) ''mo_energies'' = Some (array_obj (mo_energies self))"
  "kwarg (asdict self) ''mo_occs'' = Some (array_obj (mo_occs self))"
  "kwarg (asdict self) ''ip'' = Some (float_obj (ip self))"
  "kwarg (asdict self) ''mu'' = Some (float_obj (mu self))"
  "kwarg (asdict self) ''eta'' = Some (float_obj (eta self))"
  "kwarg (asdict self) ''rs'' = Some (array_obj (rs self))"
  "kwarg (asdict self) ''dens_up'' = Some (array_obj (dens_up self))"
  "kwarg (asdict self) ''dens_dn'' = Some (array_obj (dens_dn self))"
  "kwarg (asdict self) ''dens_tot'' = Some (array_obj (dens_tot self))"
  "kwarg (asdict self) ''dens_mag'' = Some (array_obj (dens_mag self))"
  "kwarg (asdict self) ''d_dens_up'' = Some (array_obj (d_dens_up self))"
  "kwarg (asdict self) ''d_dens_dn'' = Some (array_obj (d_dens_dn self))"
  "kwarg (asdict self) ''d_dens_tot'' = Some (array_obj (d_dens_tot self))"
  "kwarg (asdict self) ''d_dens_mag'' = Some (array_obj (d_dens_mag self))"
  "kwarg (asdict self) ''lapl_up'' = Some (array_obj (lapl_up self))"
  "kwarg (asdict self) ''lapl_dn'' = Some (array_obj (lapl_dn self))"
  "kwarg (asdict self) ''lapl_tot'' = Some (array_obj (lapl_tot self))"
  "kwarg (asdict self) ''lapl_mag'' = Some (array_obj (lapl_mag self))"
  "kwarg (asdict self) ''ked_up'' = Some (array_obj (ked_up self))"
  "kwarg (asdict self) ''ked_dn'' = Some (array_obj (ked_dn self))"
  "kwarg (asdict self) ''ked_tot'' = Some (array_obj (ked_tot self))"
  "kwarg (asdict self) ''ked_mag'' = Some (array_obj (ked_mag self))"
  by (simp_all add: kwarg_def asdict_def)

lemma has_type_simps:
  "has_type TStr (PStr s)"
  "has_type TInt (PInt i)"
  "has_type TFloat (PFloat y)"
  "has_type TFloat (float_obj x) \<or> float_obj x = PNone"
  "has_type TArray (array_obj a) \<or> array_obj a = PNone"
  by (simp_all add: has_type_def float_obj_def array_obj_def split: option.splits)

lemma radius_items: "list_all radius_item (map (\<lambda>(k, v). (PStr k, float_obj v)) d)"
  by (induction d) (auto simp: radius_item_def float_obj_def split: option.splits)

lemma has_type_dict_obj: "has_type TDict (dict_obj d) = distinct (map fst d)"
  unfolding dict_obj_def has_type_def
  by (simp add: radius_items distinct_keys_radii del: map_map)

lemma the_dict_dict_obj: "the_dict (Some (dict_obj d)) = d"
  unfolding dict_obj_def the_dict_def
  by (induction d) (auto simp: the_str_def opt_float_def float_obj_def split: option.splits)

lemma extract_simps:
  "the_str (Some (PStr s)) = s"
  "the_int (Some (PInt i)) = i"
  "the_float (Some (PFloat y)) = y"
  "opt_float (Some (float_obj x)) = x"
  "opt_array (Some (array_obj a)) = a"
  by (simp_all add: the_str_def the_int_def the_float_def opt_float_def opt_array_def
      float_obj_def array_obj_def split: option.splits)

lemma keywords_ok_asdict: "list_all keyword_ok (asdict self)"
  by (simp add: asdict_def keyword_ok_def SpeciesData_fields_def)

lemma values_ok_asdict:
  assumes "distinct (map fst (cov_radii self))" "distinct (map fst (vdw_radii self))"
  shows "list_all value_ok (asdict self)"
  using assms
  by (simp add: asdict_def value_ok_def SpeciesData_fields_def has_type_simps
      has_type_dict_obj)

lemma fields_given_asdict: "list_all (field_given (asdict self)) SpeciesData_fields"
  by (simp add: SpeciesData_fields_def field_given_def kwarg_asdict)

lemma Species_kwargs_asdict:
  assumes "distinct (map fst (cov_radii self))" "distinct (map fst (vdw_radii self))"
  shows "Species_kwargs (asdict self) = Inr (Species_init (SpeciesData.truncate self))"
  by (simp add: Species_kwargs_def keywords_ok_asdict values_ok_asdict[OF assms]
      fields_given_asdict kwarg_asdict extract_simps the_dict_dict_obj SpeciesData.truncate_def)

lemma map_arrays_radii:
  "cov_radii (map_arrays f self) = cov_radii self" "vdw_radii (map_arrays f self) = vdw_radii self"
  by (simp_all add: map_arrays_def)

lemma truncate_map_arrays: "SpeciesData.truncate (map_arrays f self) = map_arrays f self"
  by (simp add: map_arrays_def SpeciesData.truncate_def)

lemma map_arrays_id:
  assumes "all_arrays float64_1d self"
  shows "map_arrays as_float64 self = SpeciesData.truncate self"
proof -
  have id: "map_option as_float64 x = x" if "case_option True float64_1d x" for x
    using that by (cases x) (simp_all add: as_float64_id)
  from assms show ?thesis
    by (simp add: all_arrays_def arrays_def map_arrays_def SpeciesData.truncate_def id)
qed

lemma all_arrays_mono:
  assumes "all_arrays P self" and "\<And>a. P a \<Longrightarrow> Q a"
  shows "all_arrays Q self"
proof -
  have "case_option True Q x" if "case_option True P x" for x
    using that assms(2) by (cases x) simp_all
  with assms(1) show ?thesis
    unfolding all_arrays_def list_all_iff by blast
qed

lemma unpack_encoded:
  assumes "distinct (map fst (cov_radii self))" "distinct (map fst (vdw_radii self))"
    and "encode self = Inr doc"
  shows "unpack_msg doc = Inr (dump_msg self)"
proof -
  from assms(3) have packed: "pack_obj (dump_msg self) = Inr doc"
    by (simp add: encode_def pack_msg_def)
  have "plain (dump_msg self)"
    using assms(1,2) by (rule plain_dump_msg)
  then show ?thesis
    unfolding unpack_msg_def using packed by (rule unpack_pack(1))
qed

lemma decode_encode_whole:
  assumes "distinct (map fst (cov_radii self))" "distinct (map fst (vdw_radii self))"
    and "all_arrays whole_doubles self"
    and "encode self = Inr doc"
  shows "decode doc = Inr (Species_init (map_arrays as_float64 self))"
proof -
  have "unpack_msg doc = Inr (dump_msg self)"
    using assms(1,2,4) by (rule unpack_encoded)
  moreover have "Species_kwargs (asdict (map_arrays as_float64 self))
      = Inr (Species_init (map_arrays as_float64 self))"
    using Species_kwargs_asdict[of "map_arrays as_float64 self"] assms(1,2)
    by (simp add: map_arrays_radii truncate_map_arrays)
  then have "load_msg (dump_msg self) = Inr (Species_init (map_arrays as_float64 self))"
    by (simp add: load_msg_def dump_msg_def frombuffer_items_dump_msg[OF assms(3)])
  ultimately show ?thesis
    by (simp add: decode_def)
qed

lemma decode_encode:
  assumes "distinct (map fst (cov_radii self))" "distinct (map fst (vdw_radii self))"
    and "all_arrays float64_1d self"
    and "encode self = Inr doc"
  shows "decode doc = Inr (Species_init (SpeciesData.truncate self))"
proof -
  from assms(3) have "all_arrays whole_doubles self"
    by (rule all_arrays_mono) (rule float64_1d_whole)
  from decode_encode_whole[OF assms(1,2) this assms(4)] show ?thesis
    by (simp add: map_arrays_id[OF assms(3)])
qed








lemma pack_float_obj: "pack_obj (float_obj x) = Inr (case x of None \<Rightarrow> MNil | Some v \<Rightarrow> MFloat v)"
  by (cases x) (simp_all add: float_obj_def)

lemma pack_array_value:
  "packable_array x \<Longrightarrow>
   pack_obj (array_to_bytes_value (array_obj x))
     = Inr (case x of None \<Rightarrow> MNil | Some a \<Rightarrow> MBin (array_to_bytes a))"
  by (cases x)
    (simp_all add: packable_array_def array_obj_def array_to_bytes_value_def array_to_bytes_def)

lemma pack_items_radii:
  "list_all (\<lambda>kv. packable_str (fst kv)) d \<Longrightarrow>
   pack_items (map (\<lambda>(k, v). (PStr k, float_obj v)) d)
     = Inr (map (\<lambda>(k, v). (MStr k, case v of None \<Rightarrow> MNil | Some x \<Rightarrow> MFloat x)) d)"
  by (induction d) (auto simp: packable_str_def pack_float_obj)

lemma pack_dict_obj:
  "packable_radii d \<Longrightarrow>
   pack_obj (dict_obj d)
     = Inr (MMap (map (\<lambda>(k, v). (MStr k, case v of None \<Rightarrow> MNil | Some x \<Rightarrow> MFloat x)) d))"
  by (simp add: dict_obj_def packable_radii_def pack_items_radii)

lemma encode_packable:
  assumes "packable self"
  shows "\<exists>doc. encode self = Inr doc"
  using assms
  by (simp add: encode_def pack_msg_def dump_msg_def asdict_def packable_def arrays_def
      array_to_bytes_value_simps pack_float_obj pack_array_value pack_dict_obj
      packable_int_def packable_str_def)

lemma truncate_Species_init: "SpeciesData.truncate (Species_init d) = d"
  by (simp add: Species_init_def SpeciesData.defs Species.defs)

lemma derived_Species_init:
  "charge (Species_init d) = natom d - nelec d" "mult (Species_init d) = nspin d + 1"
  "natom (Species_init d) = natom d" "nelec (Species_init d) = nelec d"
  "nspin (Species_init d) = nspin d"
  by (simp_all add: Species_init_def SpeciesData.defs Species.defs)

lemma Species_kwargs_derived:
  assumes "Species_kwargs kw = Inr s"
  shows "charge s = natom s - nelec s \<and> mult s = nspin s + 1"
proof -
  from assms obtain d where "s = Species_init d"
    by (auto simp: Species_kwargs_def split: if_splits)
  then show ?thesis
    by (simp add: derived_Species_init)
qed

lemma decode_derived:
  assumes "decode doc = Inr s"
  shows "charge s = natom s - nelec s \<and> mult s = nspin s + 1"
proof -
  from assms obtain kw where "Species_kwargs kw = Inr s"
    by (auto simp: decode_def load_msg_def split: sum.splits pyobj.splits)
  then show ?thesis
    by (rule Species_kwargs_derived)
qed

lemma asdict_keys: "map fst (asdict self) = map (\<lambda>f. PStr (fst f)) SpeciesData_fields"
  by (simp add: asdict_def SpeciesData_fields_def)

lemma pack_items_keys_str:
  "pack_items d = Inr ms \<Longrightarrow> map fst d = map PStr ks \<Longrightarrow> map fst ms = map MStr ks"
proof (induction d arbitrary: ms ks)
  case Nil
  then show ?case by simp
next
  case (Cons kv d)
  obtain k v where kv: "kv = (k, v)" by (cases kv)
  from Cons.prems(2) obtain n ks' where ks: "ks = n # ks'" "k = PStr n" "map fst d = map PStr ks'"
    by (cases ks) (auto simp: kv)
  from Cons.prems(1) obtain mk mv ms' where ms: "pack_obj k = Inr mk" "ms = (mk, mv) # ms'"
    "pack_items d = Inr ms'"
    by (auto simp: kv split: sum.splits)
  from ms(1) have "mk = MStr n"
    by (auto simp: ks(2) split: if_splits)
  with Cons.IH[OF ms(3) ks(3)] show ?case
    by (simp add: ms(2) ks(1))
qed

lemma encode_keys:
  assumes "encode self = Inr doc"
  shows "\<exists>items. doc = MMap items \<and> map fst items = map (\<lambda>f. MStr (fst f)) SpeciesData_fields"
proof -
  let ?d = "map (\<lambda>(k, v). (k, array_to_bytes_value v)) (asdict self)"
  from assms obtain items where items: "pack_items ?d = Inr items" "doc = MMap items"
    by (auto simp: encode_def pack_msg_def dump_msg_def split: if_splits sum.splits)
  have "map fst ?d = map fst (asdict self)"
    by (simp add: case_prod_unfold comp_def)
  then have "map fst ?d = map PStr (map fst SpeciesData_fields)"
    by (simp add: asdict_keys comp_def)
  from pack_items_keys_str[OF items(1) this] items(2) show ?thesis
    by (simp add: comp_def)
qed

text \<open>
  The sample records: hydrogen with a grid of four doubles and, as its densities, four
  doubles (0.1, 0.5, 1, 2 and 5, 1, 0.2, 0.01), or any array.
\<close>

lemma hydrogen_packable:
  assumes "length (buffer grid) < 2 ^ 32" "length (buffer tot) < 2 ^ 32"
  shows "packable (Species_init (hydrogen m r grid tot))"
  using assms
  by (simp add: packable_def arrays_def hydrogen_def Species_init_def SpeciesData.defs
      Species.defs packable_str_def packable_int_def packable_radii_def packable_array_def)

lemma hydrogen_sample_packable:
  "packable (Species_init (hydrogen 0x409CB572E48E8A72 0x3FE2BEFF4A2B24FB
      (float64_array
         [0x3FB999999999999A, 0x3FE0000000000000, 0x3FF0000000000000, 0x4000000000000000])
      (float64_array
         [0x4014000000000000, 0x3FF0000000000000, 0x3FC999999999999A, 0x3F847AE147AE147B])))"
  by (rule hydrogen_packable) (simp_all add: float64_array_def length_float64_bytes_le)

lemma hydrogen_sample_radii:
  "distinct (map fst (cov_radii (Species_init (hydrogen m r grid tot))))"
  "distinct (map fst (vdw_radii (Species_init (hydrogen m r grid tot))))"
  by (simp_all add: hydrogen_def Species_init_def SpeciesData.defs Species.defs)

lemma hydrogen_arrays:
  "all_arrays P (Species_init (hydrogen m r grid tot)) = (P grid \<and> P tot)"
  by (auto simp: all_arrays_def arrays_def hydrogen_def Species_init_def SpeciesData.defs
      Species.defs)





text \<open>
  Claim C5. \<open>Species.__init__\<close> sets \<open>charge\<close> to \<open>natom - nelec\<close> and \<open>mult\<close> to
  \<open>nspin + 1\<close>, and so does every record that \<open>Species(**kw)\<close>, \<open>decode\<close> or \<open>load\<close>
  returns. The dictionary \<open>asdict\<close> builds has the dataclass fields as its keys, in
  order, and so has the map of an encoded record: \<open>charge\<close> and \<open>mult\<close> are not
  among them, and the encoding is the same whatever the two attributes hold.
\<close>

theorem derived_attributes:
  "charge (Species_init d) = natom d - nelec d \<and> mult (Species_init d) = nspin d + 1
   \<and> (Species_kwargs kw = Inr s \<longrightarrow> charge s = natom s - nelec s \<and> mult s = nspin s + 1)
   \<and> (decode doc = Inr s' \<longrightarrow> charge s' = natom s' - nelec s' \<and> mult s' = nspin s' + 1)
   \<and> (load el c m x dset datapath fs = Inr s''
        \<longrightarrow> charge s'' = natom s'' - nelec s'' \<and> mult s'' = nspin s'' + 1)
   \<and> map fst (asdict self) = map (\<lambda>f. PStr (fst f)) SpeciesData_fields
   \<and> ''charge'' \<notin> fst ` set SpeciesData_fields \<and> ''mult'' \<notin> fst ` set SpeciesData_fields
   \<and> (encode self = Inr doc'
        \<longrightarrow> (\<exists>items. doc' = MMap items
              \<and> map fst items = map (\<lambda>f. MStr (fst f)) SpeciesData_fields))
   \<and> encode (self\<lparr>charge := c', mult := m'\<rparr>) = encode self"
proof (intro conjI impI)
  show "charge (Species_init d) = natom d - nelec d" "mult (Species_init d) = nspin d + 1"
    by (rule derived_Species_init)+
next
  assume "Species_kwargs kw = Inr s"
  then show "charge s = natom s - nelec s" "mult s = nspin s + 1"
    using Species_kwargs_derived by blast+
next
  assume "decode doc = Inr s'"
  then show "charge s' = natom s' - nelec s'" "mult s' = nspin s' + 1"
    using decode_derived by blast+
next
  assume "load el c m x dset datapath fs = Inr s''"
  then have "\<exists>doc. decode doc = Inr s''"
    by (auto simp: load_def split: option.splits)
  then show "charge s'' = natom s'' - nelec s''" "mult s'' = nspin s'' + 1"
    using decode_derived by blast+
next
  show "map fst (asdict self) = map (\<lambda>f. PStr (fst f)) SpeciesData_fields"
    by (rule asdict_keys)
next
  show "''charge'' \<notin> fst ` set SpeciesData_fields" "''mult'' \<notin> fst ` set SpeciesData_fields"
    by (simp_all add: SpeciesData_fields_def)
next
  assume "encode self = Inr doc'"
  then show "\<exists>items. doc' = MMap items
      \<and> map fst items = map (\<lambda>f. MStr (fst f)) SpeciesData_fields"
    by (rule encode_keys)
next
  show "encode (self\<lparr>charge := c', mult := m'\<rparr>) = encode self"
    by (simp add: encode_def dump_msg_def asdict_def)
qed

theorem derived_attributes_witness:
  "\<exists>doc s. encode (Species_init (hydrogen 0x409CB572E48E8A72 0x3FE2BEFF4A2B24FB
        (float64_array
           [0x3FB999999999999A, 0x3FE0000000000000, 0x3FF0000000000000, 0x4000000000000000])
        (float64_array
           [0x4014000000000000, 0x3FF0000000000000, 0x3FC999999999999A, 0x3F847AE147AE147B])))
      = Inr doc
    \<and> load (Sym ''H'') 0 2 0 ''hci'' ''data''
        [msgfile (Sym ''H'') 0 2 0 ''hci'' ''data'' \<mapsto> doc] = Inr s
    \<and> decode doc = Inr s \<and> charge s = 0 \<and> mult s = 2
    \<and> (\<exists>items. doc = MMap items
          \<and> map fst items = map (\<lambda>f. MStr (fst f)) SpeciesData_fields)"
proof -
  let ?grid = "float64_array
      [0x3FB999999999999A, 0x3FE0000000000000, 0x3FF0000000000000, 0x4000000000000000]"
  let ?tot = "float64_array
      [0x4014000000000000, 0x3FF0000000000000, 0x3FC999999999999A, 0x3F847AE147AE147B]"
  let ?d = "hydrogen 0x409CB572E48E8A72 0x3FE2BEFF4A2B24FB ?grid ?tot"
  let ?s = "Species_init ?d"
  let ?fn = "msgfile (Sym ''H'') 0 2 0 ''hci'' ''data''"
  from encode_packable[OF hydrogen_sample_packable] obtain doc where doc: "encode ?s = Inr doc"
    by blast
  have arr: "all_arrays float64_1d ?s"
    by (simp add: hydrogen_arrays float64_1d_float64_array)
  have dec: "decode doc = Inr ?s"
    using decode_encode[OF hydrogen_sample_radii arr doc] by (simp add: truncate_Species_init)
  have ld: "load (Sym ''H'') 0 2 0 ''hci'' ''data'' [?fn \<mapsto> doc] = Inr ?s"
    by (simp add: load_def dec)
  have fields: "natom ?s - nelec ?s = 0" "nspin ?s + 1 = 2"
    by (simp_all add: derived_Species_init hydrogen_def)
  note da = derived_attributes[where doc = doc and s' = ?s and self = ?s and doc' = doc
      and el = "Sym ''H''" and c = 0 and m = 2 and x = 0 and dset = "''hci''"
      and datapath = "''data''" and fs = "[?fn \<mapsto> doc]" and s'' = ?s]
  from da dec ld have "charge ?s = natom ?s - nelec ?s" "mult ?s = nspin ?s + 1"
    by blast+
  with fields have "charge ?s = 0" "mult ?s = 2"
    by simp_all
  moreover from da doc have "\<exists>items. doc = MMap items
      \<and> map fst items = map (\<lambda>f. MStr (fst f)) SpeciesData_fields"
    by blast
  ultimately show ?thesis
    using doc dec ld by blast
qed

subsection \<open>The path of a database entry\<close>

lemma msgfile_hydrogen:
  "msgfile (Num 1) 0 2 0 ''hci'' ''data'' = ''data/hci/db/1_0_2_0.msg''"
  "msgfile (Sym ''H'') 0 2 0 ''hci'' ''data'' = ''data/hci/db/H_0_2_0.msg''"
  by (simp_all add: msgfile_def join_def startswith_def endswith_def lower_def lower_char_def
      format_elem_def str_int_def str_nat.simps)

text \<open>
  Claim C2, evaluated at the key (hydrogen, charge 0, multiplicity 2, excitation 0,
  dataset \<open>hci\<close>): the element table gives \<open>"H"\<close> for the number 1, but \<open>_msgfile\<close>
  formats the element as it is passed, so the key given with the number and the key
  given with the symbol resolve to two different paths. After \<open>_dump\<close> has written the
  record of that key, \<open>load\<close> finds it under the symbol and raises \<open>FileNotFoundError\<close>
  under the number.
\<close>

theorem load_number_and_symbol_differ:
  "element_symbol (Num 1) = Inr ''H''
   \<and> msgfile (Num 1) 0 2 0 ''hci'' ''data'' = ''data/hci/db/1_0_2_0.msg''
   \<and> msgfile (Sym ''H'') 0 2 0 ''hci'' ''data'' = ''data/hci/db/H_0_2_0.msg''
   \<and> (\<exists>fs. dump (Species_init (hydrogen 0x409CB572E48E8A72 0x3FE2BEFF4A2B24FB
          (float64_array
             [0x3FB999999999999A, 0x3FE0000000000000, 0x3FF0000000000000, 0x4000000000000000])
          (float64_array
             [0x4014000000000000, 0x3FF0000000000000, 0x3FC999999999999A, 0x3F847AE147AE147B])))
          ''data'' Map.empty = Inr fs
        \<and> load (Sym ''H'') 0 2 0 ''hci'' ''data'' fs
          = Inr (Species_init (hydrogen 0x409CB572E48E8A72 0x3FE2BEFF4A2B24FB
          (float64_array
             [0x3FB999999999999A, 0x3FE0000000000000, 0x3FF0000000000000, 0x4000000000000000])
          (float64_array
             [0x4014000000000000, 0x3FF0000000000000, 0x3FC999999999999A, 0x3F847AE147AE147B])))
        \<and> load (Num 1) 0 2 0 ''hci'' ''data'' fs = Inl FileNotFoundError)"
proof -
  let ?grid = "float64_array
      [0x3FB999999999999A, 0x3FE0000000000000, 0x3FF0000000000000, 0x4000000000000000]"
  let ?tot = "float64_array
      [0x4014000000000000, 0x3FF0000000000000, 0x3FC999999999999A, 0x3F847AE147AE147B]"
  let ?d = "hydrogen 0x409CB572E48E8A72 0x3FE2BEFF4A2B24FB ?grid ?tot"
  let ?s = "Species_init ?d"
  have sym: "element_symbol (Num 1) = Inr ''H''"
    by (simp add: element_symbol_def tuple_getitem_def ELEMENTS_def)
  from encode_packable[OF hydrogen_sample_packable] obtain doc where doc: "encode ?s = Inr doc"
    by blast
  have arr: "all_arrays float64_1d ?s"
    by (simp add: hydrogen_arrays float64_1d_float64_array)
  have key: "elem ?s = ''H''" "charge ?s = 0" "mult ?s = 2" "nexc ?s = 0" "dataset ?s = ''hci''"
    by (simp_all add: Species_init_def hydrogen_def SpeciesData.defs Species.defs)
  have written: "dump ?s ''data'' Map.empty = Inr [''data/hci/db/H_0_2_0.msg'' \<mapsto> doc]"
    by (simp add: dump_def doc key msgfile_hydrogen)
  have "decode doc = Inr ?s"
    using decode_encode[OF hydrogen_sample_radii arr doc] by (simp add: truncate_Species_init)
  then have by_symbol: "load (Sym ''H'') 0 2 0 ''hci'' ''data''
      [''data/hci/db/H_0_2_0.msg'' \<mapsto> doc] = Inr ?s"
    by (simp add: load_def msgfile_hydrogen)
  have by_number: "load (Num 1) 0 2 0 ''hci'' ''data''
      [''data/hci/db/H_0_2_0.msg'' \<mapsto> doc] = Inl FileNotFoundError"
    by (simp add: load_def msgfile_hydrogen)
  from sym written by_symbol by_number show ?thesis
    by (simp only: msgfile_hydrogen) blast
qed

end
